theory Spec2Isabelle
  imports Main
begin

section \<open>JavaScript values\<close>

text \<open>
  The arguments of the Page Object methods are untyped JavaScript values. The sources do
  five things to an argument: they interpolate it into a template literal
  (\<open>${productId}\<close>), call \<open>count.toString()\<close>, compare \<open>count === 0\<close>, test \<open>if (message)\<close>
  and call \<open>products.forEach\<close>; everything else is handed to the engine as it is.

  A value is \<open>undefined\<close>, \<open>null\<close>, a boolean, a number, a bigint, a string, a symbol, an
  array or an object. \<open>JNum n\<close> is the number the numeric literal \<open>n\<close> evaluates to (the
  double nearest to \<open>n\<close>; \<open>-0\<close> is \<open>JNum 0\<close>, which it equals and prints as), and \<open>JNonInt s\<close>
  is any other number (a fraction, \<open>NaN\<close>, \<open>Infinity\<close>, \<open>-Infinity\<close>), given by the text it
  prints as. An object, a function included, is given by what the two conversions yield
  for it: the string or the error of a template literal, and the value or the error of
  the call \<open>o.toString()\<close>; \<open>Object.create(null)\<close> has an error for both. A conversion has
  no effect of its own: an object whose \<open>toString\<close> runs further code of the test suite is
  outside the model, and so is an object with a \<open>forEach\<close> of its own.

  The messages of the errors are worded as V8 words them.
\<close>

datatype jserror = TypeError string | ReferenceError string | Thrown string

datatype jsval =
    JUndefined
  | JNull
  | JBool bool
  | JNum int
  | JNonInt string
  | JBigInt int
  | JStr string
  | JSymbol string
  | JArr "jsval list"
  | JObject "jserror + string" "jserror + jsval"

subsection \<open>Numbers as text\<close>

definition digit_char :: "nat \<Rightarrow> char" where
  "digit_char d =
     (if d = 0 then CHR ''0'' else if d = 1 then CHR ''1'' else if d = 2 then CHR ''2''
      else if d = 3 then CHR ''3'' else if d = 4 then CHR ''4'' else if d = 5 then CHR ''5''
      else if d = 6 then CHR ''6'' else if d = 7 then CHR ''7'' else if d = 8 then CHR ''8''
      else CHR ''9'')"

function digits :: "nat \<Rightarrow> string" where
  "digits n = (if n < 10 then [digit_char n] else digits (n div 10) @ [digit_char (n mod 10)])"
  by pat_completeness auto
termination
  by (relation "measure id") auto

declare digits.simps [simp del]



text \<open>
  A number is a double. \<open>to_double m\<close> is the double nearest to the natural number \<open>m\<close>:
  \<open>m\<close> itself below \<open>2 ^ 53\<close>, and above it \<open>m\<close> rounded to 53 significant bits, a tie
  going to the even mantissa. \<open>shift_of m 0\<close> is the number of bits that rounding drops.
\<close>

function shift_of :: "nat \<Rightarrow> nat \<Rightarrow> nat" where
  "shift_of m b = (if m div 2 ^ b < 2 ^ 53 then b else shift_of m (Suc b))"
  by pat_completeness auto
termination
proof (relation "measure (\<lambda>(m, b). m div 2 ^ b)")
  show "wf (measure (\<lambda>(m, b). m div 2 ^ b))" by simp
next
  fix m b :: nat
  assume a: "\<not> m div 2 ^ b < 2 ^ 53"
  then have pos: "0 < m div 2 ^ b" by (simp add: not_less)
  have "m div 2 ^ Suc b = (m div 2 ^ b) div 2"
    by (simp only: power_Suc2 div_mult2_eq)
  with pos have "m div 2 ^ Suc b < m div 2 ^ b" by simp
  then show "((m, Suc b), (m, b)) \<in> measure (\<lambda>(m, b). m div 2 ^ b)" by simp
qed

declare shift_of.simps [simp del]

definition to_double :: "nat \<Rightarrow> nat" where
  "to_double m =
     (let b = shift_of m 0; q = m div 2 ^ b; r = m mod 2 ^ b in
      if 2 * r < 2 ^ b then q * 2 ^ b
      else if 2 ^ b < 2 * r then (q + 1) * 2 ^ b
      else if even q then q * 2 ^ b
      else (q + 1) * 2 ^ b)"

text \<open>
  \<open>Number.prototype.toString\<close> prints the shortest decimal numeral that reads back as the
  same double, the nearest one when there is a choice: \<open>shortest x nd k\<close> tries \<open>k\<close>, then
  \<open>k + 1\<close>, ... significant digits of the \<open>nd\<close>-digit \<open>x\<close> (seventeen always suffice). Up to
  21 digits the numeral is printed in full, and in exponent notation beyond; a number of
  \<open>2 ^ 1024\<close> or more is \<open>Infinity\<close>.
\<close>

function shortest :: "nat \<Rightarrow> nat \<Rightarrow> nat \<Rightarrow> nat" where
  "shortest x nd k =
     (if nd \<le> k \<or> 17 < k then x
      else (let p = 10 ^ (nd - k); lo = (x div p) * p; hi = lo + p in
            if to_double lo = x \<and> to_double hi = x then (if x - lo \<le> hi - x then lo else hi)
            else if to_double lo = x then lo
            else if to_double hi = x then hi
            else shortest x nd (Suc k)))"
  by pat_completeness auto
termination
  by (relation "measure (\<lambda>(x, nd, k). 18 - k)") auto

declare shortest.simps [simp del]

definition double_string :: "nat \<Rightarrow> string" where
  "double_string x =
     (let ds = digits (shortest x (length (digits x)) 1) in
      if length ds \<le> 21 then ds
      else (let sig = rev (dropWhile (\<lambda>c. c = CHR ''0'') (rev ds)) in
            hd sig # (if tl sig = [] then [] else CHR ''.'' # tl sig)
              @ ''e+'' @ digits (length ds - 1)))"

definition number_string :: "int \<Rightarrow> string" where
  "number_string n =
     (let m = nat \<bar>n\<bar>; sign = (if n < 0 then ''-'' else []) in
      if m < 2 ^ 53 then sign @ digits m
      else if 2 ^ 1024 \<le> to_double m then sign @ ''Infinity''
      else sign @ double_string (to_double m))"

definition bigint_string :: "int \<Rightarrow> string" where
  "bigint_string n = (if n < 0 then ''-'' else []) @ digits (nat \<bar>n\<bar>)"

subsection \<open>The conversions\<close>

text \<open>\<open>Array.prototype.join\<close> on the converted elements: the first error ends it.\<close>

fun join_comma :: "(jserror + string) list \<Rightarrow> jserror + string" where
  "join_comma [] = Inr []"
| "join_comma [r] = r"
| "join_comma (r # q # rs) =
     (case r of
        Inl e \<Rightarrow> Inl e
      | Inr s \<Rightarrow> (case join_comma (q # rs) of Inl e \<Rightarrow> Inl e | Inr t \<Rightarrow> Inr (s @ '','' @ t)))"

text \<open>
  The conversion a template literal applies to an interpolated value. It throws on a
  symbol, on an object that cannot be converted, and on an array that holds one.
\<close>

fun js_string :: "jsval \<Rightarrow> jserror + string" where
  "js_string JUndefined = Inr ''undefined''"
| "js_string JNull = Inr ''null''"
| "js_string (JBool b) = Inr (if b then ''true'' else ''false'')"
| "js_string (JNum n) = Inr (number_string n)"
| "js_string (JNonInt s) = Inr s"
| "js_string (JBigInt n) = Inr (bigint_string n)"
| "js_string (JStr s) = Inr s"
| "js_string (JSymbol d) = Inl (TypeError ''Cannot convert a Symbol value to a string'')"
| "js_string (JArr xs) =
     join_comma (map (\<lambda>x. if x = JUndefined \<or> x = JNull then Inr [] else js_string x) xs)"
| "js_string (JObject t m) = t"

text \<open>
  The method call \<open>v.toString()\<close>. Reading the property of \<open>undefined\<close> or \<open>null\<close> throws; a
  symbol has a \<open>toString\<close> that describes it; an object yields what its own \<open>toString\<close>
  yields, which need not be a string.
\<close>

definition toString :: "jsval \<Rightarrow> jserror + jsval" where
  \<open>toString v =
     (case v of
        JUndefined \<Rightarrow> Inl (TypeError ''Cannot read properties of undefined (reading 'toString')'')
      | JNull \<Rightarrow> Inl (TypeError ''Cannot read properties of null (reading 'toString')'')
      | JSymbol d \<Rightarrow> Inr (JStr (''Symbol('' @ d @ '')''))
      | JObject t m \<Rightarrow> m
      | _ \<Rightarrow> (case js_string v of Inl e \<Rightarrow> Inl e | Inr s \<Rightarrow> Inr (JStr s)))\<close>

text \<open>The truth value \<open>if (v)\<close> tests.\<close>

fun truthy :: "jsval \<Rightarrow> bool" where
  "truthy JUndefined = False"
| "truthy JNull = False"
| "truthy (JBool b) = b"
| "truthy (JNum n) = (n \<noteq> 0)"
| "truthy (JNonInt s) = (s \<noteq> ''NaN'')"
| "truthy (JBigInt n) = (n \<noteq> 0)"
| "truthy (JStr s) = (s \<noteq> [])"
| "truthy (JSymbol d) = True"
| "truthy (JArr xs) = True"
| "truthy (JObject t m) = True"

section \<open>The command queue of the automation engine\<close>

text \<open>
  Every \<open>cy.\<close> call and every call chained on its result adds one command to the engine's
  queue and returns at once; the engine runs the queue afterwards. A command chained on
  another one works on the subject the previous command yields.
\<close>

type_synonym ref = nat

datatype assertion =
    BeVisible
  | Exist
  | NotExist
  | Contain jsval
  | NotContain jsval
  | Include string
  | HaveLength jsval

text \<open>
  The two function arguments of the sources, as closures over the \<open>cartPage\<close> they capture:
  the argument of \<open>then\<close> and the argument of \<open>each\<close> in \<open>clearCart\<close>.
\<close>

datatype callback = RemoveAllIfAny ref | RemoveNamed ref

datatype cmd =
    Visit string
  | Url
  | Get string
  | Contains string jsval
  | Parent string
  | Find string
  | Clear
  | Type jsval
  | Click
  | Select jsval
  | Should assertion
  | Then callback
  | Each callback

datatype cls = LoginPage | InventoryPage | CartPage

datatype custom = LoginAsStandardUser | LoginAs | AddProductViaUI | ClearCart | SetupCartWithProducts

text \<open>
  An object has its class and its own fields. The world is what a call can change: the
  objects, the engine's queue and the registry of custom commands (one entry per
  \<open>Cypress.Commands.add\<close>, in the order of the calls).
\<close>

record obj =
  cls_of :: cls
  own_fields :: "(string \<times> jsval) list"

record world =
  heap :: "obj list"
  queue :: "cmd list"
  registry :: "(string \<times> custom) list"

text \<open>
  A call returns a value, or it throws; either way it leaves a world behind, since what was
  queued before a throw stays queued.
\<close>

type_synonym 'a js = "(jserror \<times> world) + ('a \<times> world)"

definition js_bind :: "'a js \<Rightarrow> ('a \<Rightarrow> world \<Rightarrow> 'b js) \<Rightarrow> 'b js" where
  "js_bind m f = (case m of Inl ew \<Rightarrow> Inl ew | Inr (x, w) \<Rightarrow> f x w)"

definition world_of :: "'a js \<Rightarrow> world" where
  "world_of r = (case r of Inl (e, w) \<Rightarrow> w | Inr (x, w) \<Rightarrow> w)"

definition cy :: "cmd \<Rightarrow> world \<Rightarrow> world" where
  "cy c w = w\<lparr>queue := queue w @ [c]\<rparr>"

text \<open>
  \<open>new C()\<close> in a module that binds the class names \<open>scope\<close>. None of the three classes has
  a constructor or a field declaration, so the new object has no field.
\<close>

definition class_name :: "cls \<Rightarrow> string" where
  "class_name c = (case c of LoginPage \<Rightarrow> ''LoginPage'' | InventoryPage \<Rightarrow> ''InventoryPage''
     | CartPage \<Rightarrow> ''CartPage'')"

definition new :: "cls list \<Rightarrow> cls \<Rightarrow> world \<Rightarrow> ref js" where
  "new scope c w =
     (if c \<in> set scope
      then Inr (length (heap w), w\<lparr>heap := heap w @ [\<lparr>cls_of = c, own_fields = []\<rparr>]\<rparr>)
      else Inl (ReferenceError (class_name c), w))"

section \<open>cypress/pages/LoginPage.js\<close>

definition LoginPage_usernameField :: "world \<Rightarrow> world" where
  "LoginPage_usernameField w = cy (Get ''#user-name'') w"

definition LoginPage_passwordField :: "world \<Rightarrow> world" where
  "LoginPage_passwordField w = cy (Get ''#password'') w"

definition LoginPage_loginButton :: "world \<Rightarrow> world" where
  "LoginPage_loginButton w = cy (Get ''#login-button'') w"

definition LoginPage_errorMessage :: "world \<Rightarrow> world" where
  \<open>LoginPage_errorMessage w = cy (Get ''[data-test="error"]'') w\<close>

definition LoginPage_errorButton :: "world \<Rightarrow> world" where
  "LoginPage_errorButton w = cy (Get ''.error-button'') w"

definition LoginPage_visit :: "ref \<Rightarrow> world \<Rightarrow> ref js" where
  "LoginPage_visit this w = (let w = cy (Visit ''https://www.saucedemo.com/'') w in Inr (this, w))"

definition LoginPage_fillUsername :: "jsval \<Rightarrow> ref \<Rightarrow> world \<Rightarrow> ref js" where
  "LoginPage_fillUsername username this w =
     (let w = LoginPage_usernameField w; w = cy Clear w; w = cy (Type username) w
      in Inr (this, w))"

definition LoginPage_fillPassword :: "jsval \<Rightarrow> ref \<Rightarrow> world \<Rightarrow> ref js" where
  "LoginPage_fillPassword password this w =
     (let w = LoginPage_passwordField w; w = cy Clear w; w = cy (Type password) w
      in Inr (this, w))"

definition LoginPage_clickLogin :: "ref \<Rightarrow> world \<Rightarrow> ref js" where
  "LoginPage_clickLogin this w = (let w = LoginPage_loginButton w; w = cy Click w in Inr (this, w))"

definition LoginPage_clearError :: "ref \<Rightarrow> world \<Rightarrow> ref js" where
  "LoginPage_clearError this w = (let w = LoginPage_errorButton w; w = cy Click w in Inr (this, w))"

definition LoginPage_login :: "jsval \<Rightarrow> jsval \<Rightarrow> ref \<Rightarrow> world \<Rightarrow> ref js" where
  "LoginPage_login username password this w =
     js_bind (LoginPage_fillUsername username this w) (\<lambda>_ w.
     js_bind (LoginPage_fillPassword password this w) (\<lambda>_ w.
     js_bind (LoginPage_clickLogin this w) (\<lambda>_ w.
     Inr (this, w))))"

definition LoginPage_shouldShowError :: "jsval \<Rightarrow> ref \<Rightarrow> world \<Rightarrow> ref js" where
  "LoginPage_shouldShowError message this w =
     (let w = LoginPage_errorMessage w; w = cy (Should BeVisible) w;
          w = (if truthy message
               then (let w = LoginPage_errorMessage w in cy (Should (Contain message)) w)
               else w)
      in Inr (this, w))"

definition LoginPage_shouldRedirectToInventory :: "ref \<Rightarrow> world \<Rightarrow> ref js" where
  "LoginPage_shouldRedirectToInventory this w =
     (let w = cy Url w; w = cy (Should (Include ''/inventory'')) w in Inr (this, w))"

definition LoginPage_shouldBeOnLoginPage :: "ref \<Rightarrow> world \<Rightarrow> ref js" where
  "LoginPage_shouldBeOnLoginPage this w =
     (let w = cy Url w; w = cy (Should (Include ''saucedemo.com'')) w;
          w = LoginPage_loginButton w; w = cy (Should BeVisible) w
      in Inr (this, w))"

section \<open>cypress/pages/InventoryPage.js\<close>

definition InventoryPage_pageTitle :: "world \<Rightarrow> world" where
  "InventoryPage_pageTitle w = cy (Get ''.title'') w"

definition InventoryPage_cartBadge :: "world \<Rightarrow> world" where
  "InventoryPage_cartBadge w = cy (Get ''.shopping_cart_badge'') w"

definition InventoryPage_cartIcon :: "world \<Rightarrow> world" where
  "InventoryPage_cartIcon w = cy (Get ''.shopping_cart_link'') w"

definition InventoryPage_menuButton :: "world \<Rightarrow> world" where
  "InventoryPage_menuButton w = cy (Get ''#react-burger-menu-btn'') w"

definition InventoryPage_logoutLink :: "world \<Rightarrow> world" where
  "InventoryPage_logoutLink w = cy (Get ''#logout_sidebar_link'') w"

definition InventoryPage_inventoryItems :: "world \<Rightarrow> world" where
  "InventoryPage_inventoryItems w = cy (Get ''.inventory_item'') w"

definition InventoryPage_sortDropdown :: "world \<Rightarrow> world" where
  "InventoryPage_sortDropdown w = cy (Get ''.product_sort_container'') w"

text \<open>
  The templated getters evaluate the template literal first, as the argument of \<open>cy.get\<close>:
  when the conversion of \<open>productId\<close> throws, nothing is queued.
\<close>

definition InventoryPage_getAddToCartButton :: "jsval \<Rightarrow> world \<Rightarrow> (jserror \<times> world) + world" where
  \<open>InventoryPage_getAddToCartButton productId w =
     (case js_string productId of
        Inl e \<Rightarrow> Inl (e, w)
      | Inr s \<Rightarrow> Inr (cy (Get (''[data-test="add-to-cart-'' @ s @ ''"]'')) w))\<close>

definition InventoryPage_getRemoveButton :: "jsval \<Rightarrow> world \<Rightarrow> (jserror \<times> world) + world" where
  \<open>InventoryPage_getRemoveButton productId w =
     (case js_string productId of
        Inl e \<Rightarrow> Inl (e, w)
      | Inr s \<Rightarrow> Inr (cy (Get (''[data-test="remove-'' @ s @ ''"]'')) w))\<close>

definition InventoryPage_getProductTitle :: "jsval \<Rightarrow> world \<Rightarrow> (jserror \<times> world) + world" where
  "InventoryPage_getProductTitle productId w =
     (case js_string productId of
        Inl e \<Rightarrow> Inl (e, w)
      | Inr s \<Rightarrow> Inr (cy (Get (''#item_'' @ s @ ''_title_link'')) w))"

definition InventoryPage_getProductPrice :: "jsval \<Rightarrow> world \<Rightarrow> (jserror \<times> world) + world" where
  \<open>InventoryPage_getProductPrice productId w =
     (case js_string productId of
        Inl e \<Rightarrow> Inl (e, w)
      | Inr s \<Rightarrow> Inr (cy (Get (''.inventory_item:has([data-test="add-to-cart-'' @ s
                           @ ''"]) .inventory_item_price'')) w))\<close>

definition InventoryPage_getProductImage :: "jsval \<Rightarrow> world \<Rightarrow> (jserror \<times> world) + world" where
  "InventoryPage_getProductImage productId w =
     (case js_string productId of
        Inl e \<Rightarrow> Inl (e, w)
      | Inr s \<Rightarrow> Inr (cy (Get (''#item_'' @ s @ ''_img_link img'')) w))"

definition InventoryPage_addProductToCart :: "jsval \<Rightarrow> ref \<Rightarrow> world \<Rightarrow> ref js" where
  "InventoryPage_addProductToCart productId this w =
     (case InventoryPage_getAddToCartButton productId w of
        Inl ew \<Rightarrow> Inl ew
      | Inr w \<Rightarrow> (let w = cy Click w in Inr (this, w)))"

definition InventoryPage_removeProductFromCart :: "jsval \<Rightarrow> ref \<Rightarrow> world \<Rightarrow> ref js" where
  "InventoryPage_removeProductFromCart productId this w =
     (case InventoryPage_getRemoveButton productId w of
        Inl ew \<Rightarrow> Inl ew
      | Inr w \<Rightarrow> (let w = cy Click w in Inr (this, w)))"

definition InventoryPage_goToCart :: "ref \<Rightarrow> world \<Rightarrow> ref js" where
  "InventoryPage_goToCart this w =
     (let w = InventoryPage_cartIcon w; w = cy Click w in Inr (this, w))"

definition InventoryPage_openMenu :: "ref \<Rightarrow> world \<Rightarrow> ref js" where
  "InventoryPage_openMenu this w =
     (let w = InventoryPage_menuButton w; w = cy Click w in Inr (this, w))"

definition InventoryPage_logout :: "ref \<Rightarrow> world \<Rightarrow> ref js" where
  "InventoryPage_logout this w =
     js_bind (InventoryPage_openMenu this w) (\<lambda>_ w.
     (let w = InventoryPage_logoutLink w; w = cy Click w in Inr (this, w)))"

definition InventoryPage_sortProducts :: "jsval \<Rightarrow> ref \<Rightarrow> world \<Rightarrow> ref js" where
  "InventoryPage_sortProducts option this w =
     (let w = InventoryPage_sortDropdown w; w = cy (Select option) w in Inr (this, w))"

definition InventoryPage_clickProductTitle :: "jsval \<Rightarrow> ref \<Rightarrow> world \<Rightarrow> ref js" where
  "InventoryPage_clickProductTitle productId this w =
     (case InventoryPage_getProductTitle productId w of
        Inl ew \<Rightarrow> Inl ew
      | Inr w \<Rightarrow> (let w = cy Click w in Inr (this, w)))"

definition InventoryPage_shouldHaveTitle :: "jsval \<Rightarrow> ref \<Rightarrow> world \<Rightarrow> ref js" where
  "InventoryPage_shouldHaveTitle title this w =
     (let w = InventoryPage_pageTitle w; w = cy (Should (Contain title)) w in Inr (this, w))"

text \<open>
  The argument \<open>count.toString()\<close> is evaluated after the getter \<open>this.cartBadge\<close> and before
  the call of \<open>should\<close>: when it throws, the query of the badge is queued already and the
  method returns nothing.
\<close>

definition InventoryPage_shouldShowCartBadge :: "jsval \<Rightarrow> ref \<Rightarrow> world \<Rightarrow> ref js" where
  "InventoryPage_shouldShowCartBadge count this w =
     (let w = InventoryPage_cartBadge w in
      case toString count of
        Inl e \<Rightarrow> Inl (e, w)
      | Inr s \<Rightarrow> (let w = cy (Should (Contain s)) w in Inr (this, w)))"

definition InventoryPage_shouldNotShowCartBadge :: "ref \<Rightarrow> world \<Rightarrow> ref js" where
  "InventoryPage_shouldNotShowCartBadge this w =
     (let w = InventoryPage_cartBadge w; w = cy (Should NotExist) w in Inr (this, w))"

definition InventoryPage_shouldHaveProductCount :: "jsval \<Rightarrow> ref \<Rightarrow> world \<Rightarrow> ref js" where
  "InventoryPage_shouldHaveProductCount count this w =
     (let w = InventoryPage_inventoryItems w; w = cy (Should (HaveLength count)) w
      in Inr (this, w))"

definition InventoryPage_shouldShowProduct :: "jsval \<Rightarrow> ref \<Rightarrow> world \<Rightarrow> ref js" where
  "InventoryPage_shouldShowProduct productId this w =
     (case InventoryPage_getAddToCartButton productId w of
        Inl ew \<Rightarrow> Inl ew
      | Inr w \<Rightarrow> (let w = cy (Should Exist) w in Inr (this, w)))"

section \<open>cypress/pages/CartPage.js\<close>

definition CartPage_pageTitle :: "world \<Rightarrow> world" where
  "CartPage_pageTitle w = cy (Get ''.title'') w"

definition CartPage_cartItems :: "world \<Rightarrow> world" where
  "CartPage_cartItems w = cy (Get ''.cart_item'') w"

definition CartPage_checkoutButton :: "world \<Rightarrow> world" where
  "CartPage_checkoutButton w = cy (Get ''#checkout'') w"

definition CartPage_continueShoppingButton :: "world \<Rightarrow> world" where
  "CartPage_continueShoppingButton w = cy (Get ''#continue-shopping'') w"

definition CartPage_cartQuantity :: "world \<Rightarrow> world" where
  "CartPage_cartQuantity w = cy (Get ''.cart_quantity'') w"

definition CartPage_getCartItem :: "jsval \<Rightarrow> world \<Rightarrow> world" where
  "CartPage_getCartItem productName w =
     (let w = cy (Get ''.cart_item'') w; w = cy (Contains ''.inventory_item_name'' productName) w
      in cy (Parent ''.cart_item'') w)"

definition CartPage_getRemoveButton :: "jsval \<Rightarrow> world \<Rightarrow> world" where
  \<open>CartPage_getRemoveButton productName w =
     (let w = CartPage_getCartItem productName w in cy (Find ''button[id*="remove"]'') w)\<close>

definition CartPage_getItemQuantity :: "jsval \<Rightarrow> world \<Rightarrow> world" where
  "CartPage_getItemQuantity productName w =
     (let w = CartPage_getCartItem productName w in cy (Find ''.cart_quantity'') w)"

definition CartPage_getItemPrice :: "jsval \<Rightarrow> world \<Rightarrow> world" where
  "CartPage_getItemPrice productName w =
     (let w = CartPage_getCartItem productName w in cy (Find ''.inventory_item_price'') w)"

definition CartPage_removeItem :: "jsval \<Rightarrow> ref \<Rightarrow> world \<Rightarrow> ref js" where
  "CartPage_removeItem productName this w =
     (let w = CartPage_getRemoveButton productName w; w = cy Click w in Inr (this, w))"

definition CartPage_proceedToCheckout :: "ref \<Rightarrow> world \<Rightarrow> ref js" where
  "CartPage_proceedToCheckout this w =
     (let w = CartPage_checkoutButton w; w = cy Click w in Inr (this, w))"

definition CartPage_continueShopping :: "ref \<Rightarrow> world \<Rightarrow> ref js" where
  "CartPage_continueShopping this w =
     (let w = CartPage_continueShoppingButton w; w = cy Click w in Inr (this, w))"

definition CartPage_shouldHaveTitle :: "jsval \<Rightarrow> ref \<Rightarrow> world \<Rightarrow> ref js" where
  "CartPage_shouldHaveTitle title this w =
     (let w = CartPage_pageTitle w; w = cy (Should (Contain title)) w in Inr (this, w))"

definition CartPage_shouldHaveItemCount :: "jsval \<Rightarrow> ref \<Rightarrow> world \<Rightarrow> ref js" where
  "CartPage_shouldHaveItemCount count this w =
     (let w = (if count = JNum 0
               then (let w = CartPage_cartItems w in cy (Should NotExist) w)
               else (let w = CartPage_cartItems w in cy (Should (HaveLength count)) w))
      in Inr (this, w))"

definition CartPage_shouldContainProduct :: "jsval \<Rightarrow> ref \<Rightarrow> world \<Rightarrow> ref js" where
  "CartPage_shouldContainProduct productName this w =
     (let w = CartPage_getCartItem productName w; w = cy (Should Exist) w in Inr (this, w))"

definition CartPage_shouldNotContainProduct :: "jsval \<Rightarrow> ref \<Rightarrow> world \<Rightarrow> ref js" where
  "CartPage_shouldNotContainProduct productName this w =
     (let w = cy (Get ''.cart_item .inventory_item_name'') w;
          w = cy (Should (NotContain productName)) w
      in Inr (this, w))"

definition CartPage_shouldShowCorrectPrice :: "jsval \<Rightarrow> jsval \<Rightarrow> ref \<Rightarrow> world \<Rightarrow> ref js" where
  "CartPage_shouldShowCorrectPrice productName expectedPrice this w =
     (let w = CartPage_getItemPrice productName w; w = cy (Should (Contain expectedPrice)) w
      in Inr (this, w))"

section \<open>Method calls and fluent chains\<close>

text \<open>
  One constructor for every action and assertion method of the three classes, with the
  arguments of the call. \<open>page_call\<close> is the call \<open>this.m(args)\<close>; \<open>chain\<close> is the fluent
  chain \<open>this.m1(..).m2(..)...\<close>, where each call is made on what the call before returned.
\<close>

datatype call =
    L_visit
  | L_fillUsername jsval
  | L_fillPassword jsval
  | L_clickLogin
  | L_clearError
  | L_login jsval jsval
  | L_shouldShowError jsval
  | L_shouldRedirectToInventory
  | L_shouldBeOnLoginPage
  | I_addProductToCart jsval
  | I_removeProductFromCart jsval
  | I_goToCart
  | I_openMenu
  | I_logout
  | I_sortProducts jsval
  | I_clickProductTitle jsval
  | I_shouldHaveTitle jsval
  | I_shouldShowCartBadge jsval
  | I_shouldNotShowCartBadge
  | I_shouldHaveProductCount jsval
  | I_shouldShowProduct jsval
  | C_removeItem jsval
  | C_proceedToCheckout
  | C_continueShopping
  | C_shouldHaveTitle jsval
  | C_shouldHaveItemCount jsval
  | C_shouldContainProduct jsval
  | C_shouldNotContainProduct jsval
  | C_shouldShowCorrectPrice jsval jsval

fun page_call :: "call \<Rightarrow> ref \<Rightarrow> world \<Rightarrow> ref js" where
  "page_call L_visit = LoginPage_visit"
| "page_call (L_fillUsername u) = LoginPage_fillUsername u"
| "page_call (L_fillPassword p) = LoginPage_fillPassword p"
| "page_call L_clickLogin = LoginPage_clickLogin"
| "page_call L_clearError = LoginPage_clearError"
| "page_call (L_login u p) = LoginPage_login u p"
| "page_call (L_shouldShowError m) = LoginPage_shouldShowError m"
| "page_call L_shouldRedirectToInventory = LoginPage_shouldRedirectToInventory"
| "page_call L_shouldBeOnLoginPage = LoginPage_shouldBeOnLoginPage"
| "page_call (I_addProductToCart p) = InventoryPage_addProductToCart p"
| "page_call (I_removeProductFromCart p) = InventoryPage_removeProductFromCart p"
| "page_call I_goToCart = InventoryPage_goToCart"
| "page_call I_openMenu = InventoryPage_openMenu"
| "page_call I_logout = InventoryPage_logout"
| "page_call (I_sortProducts v) = InventoryPage_sortProducts v"
| "page_call (I_clickProductTitle p) = InventoryPage_clickProductTitle p"
| "page_call (I_shouldHaveTitle t) = InventoryPage_shouldHaveTitle t"
| "page_call (I_shouldShowCartBadge n) = InventoryPage_shouldShowCartBadge n"
| "page_call I_shouldNotShowCartBadge = InventoryPage_shouldNotShowCartBadge"
| "page_call (I_shouldHaveProductCount n) = InventoryPage_shouldHaveProductCount n"
| "page_call (I_shouldShowProduct p) = InventoryPage_shouldShowProduct p"
| "page_call (C_removeItem n) = CartPage_removeItem n"
| "page_call C_proceedToCheckout = CartPage_proceedToCheckout"
| "page_call C_continueShopping = CartPage_continueShopping"
| "page_call (C_shouldHaveTitle t) = CartPage_shouldHaveTitle t"
| "page_call (C_shouldHaveItemCount n) = CartPage_shouldHaveItemCount n"
| "page_call (C_shouldContainProduct n) = CartPage_shouldContainProduct n"
| "page_call (C_shouldNotContainProduct n) = CartPage_shouldNotContainProduct n"
| "page_call (C_shouldShowCorrectPrice n p) = CartPage_shouldShowCorrectPrice n p"

fun chain :: "call list \<Rightarrow> ref \<Rightarrow> world \<Rightarrow> ref js" where
  "chain [] this w = Inr (this, w)"
| "chain (c # cs) this w = js_bind (page_call c this w) (\<lambda>r w. chain cs r w)"

text \<open>The receivers of the calls of a chain, in order, up to the first call that throws.\<close>

fun receivers :: "call list \<Rightarrow> ref \<Rightarrow> world \<Rightarrow> ref list" where
  "receivers [] this w = []"
| "receivers (c # cs) this w =
     this # (case page_call c this w of Inl ew \<Rightarrow> [] | Inr (r, w') \<Rightarrow> receivers cs r w')"

text \<open>The commands a call made from \<open>w\<close> has added to the queue, whether it returned or threw.\<close>

definition issued :: "world \<Rightarrow> 'a js \<Rightarrow> cmd list" where
  "issued w r = drop (length (queue w)) (queue (world_of r))"



section \<open>cypress/support/commands.js\<close>

text \<open>The module imports \<open>LoginPage\<close> and \<open>InventoryPage\<close>, and nothing else.\<close>

definition commands_scope :: "cls list" where
  "commands_scope = [LoginPage, InventoryPage]"

definition arg :: "nat \<Rightarrow> jsval list \<Rightarrow> jsval" where
  "arg i args = (if i < length args then args ! i else JUndefined)"

definition loginAsStandardUser :: "world \<Rightarrow> unit js" where
  "loginAsStandardUser w =
     js_bind (new commands_scope LoginPage w) (\<lambda>loginPage w.
     js_bind (LoginPage_visit loginPage w) (\<lambda>r w.
     js_bind (LoginPage_login (JStr ''standard_user'') (JStr ''secret_sauce'') r w) (\<lambda>r w.
     js_bind (LoginPage_shouldRedirectToInventory r w) (\<lambda>_ w.
     Inr ((), w)))))"

definition loginAs :: "jsval \<Rightarrow> jsval \<Rightarrow> world \<Rightarrow> unit js" where
  "loginAs username password w =
     js_bind (new commands_scope LoginPage w) (\<lambda>loginPage w.
     js_bind (LoginPage_visit loginPage w) (\<lambda>r w.
     js_bind (LoginPage_login username password r w) (\<lambda>_ w.
     Inr ((), w))))"

definition addProductViaUI :: "jsval \<Rightarrow> world \<Rightarrow> unit js" where
  "addProductViaUI productId w =
     js_bind (new commands_scope InventoryPage w) (\<lambda>inventoryPage w.
     js_bind (InventoryPage_addProductToCart productId inventoryPage w) (\<lambda>_ w.
     Inr ((), w)))"

text \<open>
  The two callbacks of \<open>clearCart\<close>. The engine calls the first with the \<open>body\<close> element,
  of which it reads \<open>$body.find('.cart_item').length\<close> (here \<open>n\<close>), and the second once
  for each name element, of which it reads \<open>$item.text()\<close>.
\<close>

definition clearCart_each :: "ref \<Rightarrow> string \<Rightarrow> world \<Rightarrow> unit js" where
  "clearCart_each cartPage text w =
     (let productName = JStr text in
      js_bind (CartPage_removeItem productName cartPage w) (\<lambda>_ w. Inr ((), w)))"

definition clearCart_then :: "ref \<Rightarrow> nat \<Rightarrow> world \<Rightarrow> unit js" where
  "clearCart_then cartPage n w =
     (if n > 0
      then (let w = cy (Get ''.cart_item .inventory_item_name'') w;
                w = cy (Each (RemoveNamed cartPage)) w
            in Inr ((), w))
      else Inr ((), w))"

definition clearCart :: "world \<Rightarrow> unit js" where
  "clearCart w =
     js_bind (new commands_scope InventoryPage w) (\<lambda>inventoryPage w.
     js_bind (new commands_scope CartPage w) (\<lambda>cartPage w.
     js_bind (InventoryPage_goToCart inventoryPage w) (\<lambda>_ w.
     (let w = cy (Get ''body'') w; w = cy (Then (RemoveAllIfAny cartPage)) w
      in Inr ((), w)))))"

text \<open>\<open>products.forEach(productId => inventoryPage.addProductToCart(productId))\<close>\<close>

fun forEach_addProductToCart :: "jsval list \<Rightarrow> ref \<Rightarrow> world \<Rightarrow> unit js" where
  "forEach_addProductToCart [] inventoryPage w = Inr ((), w)"
| "forEach_addProductToCart (productId # ps) inventoryPage w =
     js_bind (InventoryPage_addProductToCart productId inventoryPage w) (\<lambda>_ w.
     forEach_addProductToCart ps inventoryPage w)"

text \<open>
  \<open>products.forEach(..)\<close> on the argument of the command: only an array has a \<open>forEach\<close>.
\<close>

definition products_forEach :: "jsval \<Rightarrow> ref \<Rightarrow> world \<Rightarrow> unit js" where
  \<open>products_forEach products inventoryPage w =
     (case products of
        JArr ps \<Rightarrow> forEach_addProductToCart ps inventoryPage w
      | JUndefined \<Rightarrow>
          Inl (TypeError ''Cannot read properties of undefined (reading 'forEach')'', w)
      | JNull \<Rightarrow> Inl (TypeError ''Cannot read properties of null (reading 'forEach')'', w)
      | _ \<Rightarrow> Inl (TypeError ''products.forEach is not a function'', w))\<close>

text \<open>
  \<open>cy.name(args)\<close> looks the name up in the registry (the last registration of a name is
  the one in force) and runs the body registered there; a name that was never registered is
  not a function of \<open>cy\<close>. \<open>setupCartWithProducts\<close> itself calls \<open>cy.loginAsStandardUser()\<close>,
  so the lookup is recursive; a registry that sends it round in a circle never returns,
  which is the value \<open>None\<close>.

  The engine queues a custom command as it does any other and runs its body when the queue
  comes to it, putting the commands of the body in the queue at that place. Here the body
  runs at the call, which gives the same queue. What differs is the moment of a throw: a
  body that throws does so here at the call and ends the scenario there, where the engine
  would first have read the statements after the call and then failed the scenario with
  the same error.
\<close>

partial_function (option) cy_custom :: "string \<Rightarrow> jsval list \<Rightarrow> world \<Rightarrow> unit js option" where
  "cy_custom name args w =
     (case map_of (rev (registry w)) name of
        None \<Rightarrow> Some (Inl (TypeError (''cy.'' @ name @ '' is not a function''), w))
      | Some LoginAsStandardUser \<Rightarrow> Some (loginAsStandardUser w)
      | Some LoginAs \<Rightarrow> Some (loginAs (arg 0 args) (arg 1 args) w)
      | Some AddProductViaUI \<Rightarrow> Some (addProductViaUI (arg 0 args) w)
      | Some ClearCart \<Rightarrow> Some (clearCart w)
      | Some SetupCartWithProducts \<Rightarrow>
          Option.bind (cy_custom ''loginAsStandardUser'' [] w) (\<lambda>r.
          Some (js_bind r (\<lambda>_ w.
            js_bind (new commands_scope InventoryPage w) (\<lambda>inventoryPage w.
            products_forEach (arg 0 args) inventoryPage w)))))"

definition Commands_add :: "string \<Rightarrow> custom \<Rightarrow> world \<Rightarrow> world" where
  "Commands_add name body w = w\<lparr>registry := registry w @ [(name, body)]\<rparr>"

text \<open>Loading the module runs its five top-level registrations.\<close>

definition commands_js :: "world \<Rightarrow> world" where
  "commands_js w =
     (let w = Commands_add ''loginAsStandardUser'' LoginAsStandardUser w;
          w = Commands_add ''loginAs'' LoginAs w;
          w = Commands_add ''addProductViaUI'' AddProductViaUI w;
          w = Commands_add ''clearCart'' ClearCart w;
          w = Commands_add ''setupCartWithProducts'' SetupCartWithProducts w
      in w)"

section \<open>The test specs\<close>

text \<open>
  The statements of a scenario: a fluent chain on one of the spec's page objects, a custom
  command called by name, and the two statements that use the engine directly
  (\<open>loginPage.errorMessage.should(..)\<close> and \<open>cy.url().should(..)\<close>).
\<close>

datatype stmt =
    OnPage cls "call list"
  | CyCustom string "jsval list"
  | ErrorMessageShould assertion
  | UrlShould assertion

type_synonym env = "(cls \<times> ref) list"

definition const_name :: "cls \<Rightarrow> string" where
  "const_name c = (case c of LoginPage \<Rightarrow> ''loginPage'' | InventoryPage \<Rightarrow> ''inventoryPage''
     | CartPage \<Rightarrow> ''cartPage'')"

fun run_stmt :: "env \<Rightarrow> stmt \<Rightarrow> world \<Rightarrow> unit js option" where
  "run_stmt env (OnPage c calls) w =
     Some (case map_of env c of
             None \<Rightarrow> Inl (ReferenceError (const_name c), w)
           | Some this \<Rightarrow> js_bind (chain calls this w) (\<lambda>_ w. Inr ((), w)))"
| "run_stmt env (CyCustom name args) w = cy_custom name args w"
| "run_stmt env (ErrorMessageShould a) w =
     Some (let w = LoginPage_errorMessage w; w = cy (Should a) w in Inr ((), w))"
| "run_stmt env (UrlShould a) w =
     Some (let w = cy Url w; w = cy (Should a) w in Inr ((), w))"

text \<open>A statement that throws ends the scenario: no statement after it runs.\<close>

fun run_stmts :: "env \<Rightarrow> stmt list \<Rightarrow> world \<Rightarrow> unit js option" where
  "run_stmts env [] w = Some (Inr ((), w))"
| "run_stmts env (s # ss) w =
     Option.bind (run_stmt env s w) (\<lambda>r.
       case r of Inl ew \<Rightarrow> Some (Inl ew) | Inr (u, w') \<Rightarrow> run_stmts env ss w')"

record spec_file =
  imported :: "cls list"
  page_objects :: "cls list"
  beforeEach :: "stmt list"
  tests :: "stmt list list"

text \<open>The constants at the head of a \<open>describe\<close> block: one \<open>new C()\<close> each.\<close>

fun make_objects :: "cls list \<Rightarrow> cls list \<Rightarrow> world \<Rightarrow> env js" where
  "make_objects scope [] w = Inr ([], w)"
| "make_objects scope (c # cs) w =
     js_bind (new scope c w) (\<lambda>r w.
     js_bind (make_objects scope cs w) (\<lambda>env w.
     Inr ((c, r) # env, w)))"

definition run_test :: "spec_file \<Rightarrow> stmt list \<Rightarrow> world \<Rightarrow> unit js option" where
  "run_test sp body w =
     (case make_objects (imported sp) (page_objects sp) w of
        Inl ew \<Rightarrow> Some (Inl ew)
      | Inr (env, w') \<Rightarrow> run_stmts env (beforeEach sp @ body) w')"

definition standard_login :: call where
  "standard_login = L_login (JStr ''standard_user'') (JStr ''secret_sauce'')"

definition invalid_login :: call where
  "invalid_login = L_login (JStr ''invalid_user'') (JStr ''wrong_password'')"

definition login_spec :: spec_file where
  "login_spec = \<lparr>
     imported = [LoginPage, InventoryPage],
     page_objects = [LoginPage, InventoryPage],
     beforeEach = [OnPage LoginPage [L_visit]],
     tests = [
       [OnPage LoginPage [standard_login, L_shouldRedirectToInventory],
        OnPage InventoryPage [I_shouldHaveTitle (JStr ''Products''),
                              I_shouldHaveProductCount (JNum 6)]],
       [OnPage LoginPage [invalid_login,
                          L_shouldShowError (JStr ''Username and password do not match'')]],
       [OnPage LoginPage [L_clickLogin, L_shouldShowError (JStr ''Username is required'')]],
       [OnPage LoginPage [invalid_login, L_shouldShowError JUndefined, L_clearError],
        ErrorMessageShould NotExist],
       [OnPage LoginPage [standard_login, L_shouldRedirectToInventory],
        OnPage InventoryPage [I_logout],
        OnPage LoginPage [L_shouldBeOnLoginPage]]
     ] \<rparr>"

definition backpack :: jsval where "backpack = JStr ''sauce-labs-backpack''"
definition bike_light :: jsval where "bike_light = JStr ''sauce-labs-bike-light''"
definition bolt_t_shirt :: jsval where "bolt_t_shirt = JStr ''sauce-labs-bolt-t-shirt''"

definition shopping_spec :: spec_file where
  "shopping_spec = \<lparr>
     imported = [LoginPage, InventoryPage, CartPage],
     page_objects = [LoginPage, InventoryPage, CartPage],
     beforeEach = [CyCustom ''loginAsStandardUser'' []],
     tests = [
       [OnPage InventoryPage [I_addProductToCart backpack, I_shouldShowCartBadge (JNum 1)]],
       [OnPage InventoryPage [I_addProductToCart backpack, I_addProductToCart bike_light,
                              I_addProductToCart bolt_t_shirt, I_shouldShowCartBadge (JNum 3)]],
       [OnPage InventoryPage [I_addProductToCart backpack, I_shouldShowCartBadge (JNum 1),
                              I_removeProductFromCart backpack, I_shouldNotShowCartBadge]],
       [OnPage InventoryPage [I_addProductToCart backpack, I_addProductToCart bike_light,
                              I_goToCart],
        OnPage CartPage [C_shouldHaveTitle (JStr ''Your Cart''), C_shouldHaveItemCount (JNum 2),
                         C_shouldContainProduct (JStr ''Sauce Labs Backpack''),
                         C_shouldContainProduct (JStr ''Sauce Labs Bike Light'')]],
       [OnPage InventoryPage [I_addProductToCart backpack, I_goToCart],
        OnPage CartPage [C_shouldHaveItemCount (JNum 1),
                         C_removeItem (JStr ''Sauce Labs Backpack''),
                         C_shouldHaveItemCount (JNum 0)]],
       [OnPage InventoryPage [I_addProductToCart backpack, I_goToCart],
        OnPage CartPage [C_continueShopping],
        OnPage InventoryPage [I_shouldHaveTitle (JStr ''Products''),
                              I_shouldShowCartBadge (JNum 1)]],
       [OnPage InventoryPage [I_addProductToCart backpack, I_addProductToCart bike_light],
        OnPage InventoryPage [I_goToCart],
        OnPage CartPage [C_shouldHaveItemCount (JNum 2),
                         C_shouldContainProduct (JStr ''Sauce Labs Backpack'')],
        OnPage CartPage [C_continueShopping],
        OnPage InventoryPage [I_addProductToCart bolt_t_shirt],
        OnPage InventoryPage [I_goToCart],
        OnPage CartPage [C_shouldHaveItemCount (JNum 3), C_proceedToCheckout],
        UrlShould (Include ''/checkout-step-one'')]
     ] \<rparr>"

text \<open>The world before any module is loaded.\<close>

definition blank :: world where
  "blank = \<lparr>heap = [], queue = [], registry = []\<rparr>"

text \<open>
  Modelled from the spec: the support entry point that loads \<open>commands.js\<close> is not among
  the sources. The spec has the custom commands "registered once, globally, before any
  Test Spec executes", so a scenario starts in the world the module load leaves.
\<close>

definition session_start :: world where
  "session_start = commands_js blank"

text \<open>
  The world in which the statements of a scenario of the shopping spec run: the three page
  objects of the spec exist, and the queue is empty.
\<close>

definition spec_world :: world where
  "spec_world = session_start\<lparr>heap :=
     [\<lparr>cls_of = LoginPage, own_fields = []\<rparr>, \<lparr>cls_of = InventoryPage, own_fields = []\<rparr>,
      \<lparr>cls_of = CartPage, own_fields = []\<rparr>]\<rparr>"

definition spec_env :: env where
  "spec_env = [(LoginPage, 0), (InventoryPage, 1), (CartPage, 2)]"

section \<open>The automation engine\<close>

text \<open>
  Modelled from the spec: the Automation Engine is an external collaborator and none of it
  is among the sources. The spec fixes three things about it. A failure is an
  element-not-found ("a Selector resolves to no elements when one was required") or an
  assertion-failure ("an expected condition never becomes true"). An engine reports "no
  elements" as "element not found" rather than as an empty collection, so only the
  assertion that the element does not exist holds of a selector that resolves to nothing.
  And "the first failure halts that scenario": the engine runs the queue in order, each
  command once, and stops at the first command that fails.

  Everything else is a parameter: what a selector resolves to in the live page, whether an
  assertion holds of the elements found, and what every other command does.
\<close>

datatype failure = ElementNotFound | AssertionFailure assertion | NavigationTimeout

text \<open>
  Modelled from the spec: the verdict of an assertion on the elements the query before it
  resolved to. \<open>judge\<close> says whether the assertion holds of elements that were found.
\<close>

definition get_should :: "(assertion \<Rightarrow> string list \<Rightarrow> bool) \<Rightarrow> string list \<Rightarrow> assertion
    \<Rightarrow> failure option" where
  "get_should judge elements a =
     (if a = NotExist then (if elements = [] then None else Some (AssertionFailure a))
      else if elements = [] then Some ElementNotFound
      else if judge a elements then None
      else Some (AssertionFailure a))"

record 'p engine =
  resolve :: "string \<Rightarrow> 'p \<Rightarrow> string list"
  holds :: "assertion \<Rightarrow> string list \<Rightarrow> bool"
  act :: "cmd \<Rightarrow> 'p \<times> string list \<Rightarrow> failure + 'p \<times> string list"

fun engine_step :: "'p engine \<Rightarrow> cmd \<Rightarrow> 'p \<times> string list \<Rightarrow> failure + 'p \<times> string list" where
  "engine_step eng (Get sel) (page, subject) = Inr (page, resolve eng sel page)"
| "engine_step eng (Should a) (page, subject) =
     (case get_should (holds eng) subject a of
        None \<Rightarrow> Inr (page, subject)
      | Some f \<Rightarrow> Inl f)"
| "engine_step eng c (page, subject) = act eng c (page, subject)"

text \<open>
  Modelled from the spec: the engine's run of a queue ("the first failure halts that
  scenario"). It gives the commands that were run, and the failure or the final state.
\<close>

fun run_queue :: "(cmd \<Rightarrow> 's \<Rightarrow> failure + 's) \<Rightarrow> cmd list \<Rightarrow> 's \<Rightarrow> cmd list \<times> (failure + 's)" where
  "run_queue step [] s = ([], Inr s)"
| "run_queue step (c # cs) s =
     (case step c s of
        Inl f \<Rightarrow> ([c], Inl f)
      | Inr s' \<Rightarrow> (case run_queue step cs s' of (executed, r) \<Rightarrow> (c # executed, r)))"






section \<open>Classifying calls, commands and accessors\<close>


text \<open>The calls that convert an argument to a string before they queue a command for it.\<close>

fun converts :: "call \<Rightarrow> bool" where
  "converts (I_addProductToCart p) = True"
| "converts (I_removeProductFromCart p) = True"
| "converts (I_clickProductTitle p) = True"
| "converts (I_shouldShowProduct p) = True"
| "converts (I_shouldShowCartBadge n) = True"
| "converts c = False"


fun is_get :: "cmd \<Rightarrow> bool" where
  "is_get (Get sel) = True"
| "is_get c = False"

fun is_callback :: "cmd \<Rightarrow> bool" where
  "is_callback (Then f) = True"
| "is_callback (Each f) = True"
| "is_callback c = False"

text \<open>
  The accessors that hand their argument on as it is, the getters and the getters of
  \<open>CartPage\<close> for an item, here applied to a name; and the templated getters of
  \<open>InventoryPage\<close>, which convert their argument.
\<close>

definition accessors :: "jsval \<Rightarrow> (world \<Rightarrow> world) list" where
  "accessors v =
     [LoginPage_usernameField, LoginPage_passwordField, LoginPage_loginButton,
      LoginPage_errorMessage, LoginPage_errorButton,
      InventoryPage_pageTitle, InventoryPage_cartBadge, InventoryPage_cartIcon,
      InventoryPage_menuButton, InventoryPage_logoutLink, InventoryPage_inventoryItems,
      InventoryPage_sortDropdown,
      CartPage_pageTitle, CartPage_cartItems, CartPage_checkoutButton,
      CartPage_continueShoppingButton, CartPage_cartQuantity, CartPage_getCartItem v,
      CartPage_getRemoveButton v, CartPage_getItemQuantity v, CartPage_getItemPrice v]"

definition templated_accessors :: "(jsval \<Rightarrow> world \<Rightarrow> (jserror \<times> world) + world) list" where
  "templated_accessors =
     [InventoryPage_getAddToCartButton, InventoryPage_getRemoveButton,
      InventoryPage_getProductTitle, InventoryPage_getProductPrice,
      InventoryPage_getProductImage]"

text \<open>
  An engine to run queues on: the page is the list of the names of the products in the
  cart, every assertion holds of the elements found, and every other command succeeds.
\<close>

definition cart_engine :: "string list engine" where
  "cart_engine = \<lparr>
     resolve = (\<lambda>sel names.
       if sel = ''.cart_item'' \<or> sel = ''.cart_item .inventory_item_name'' then names else []),
     holds = (\<lambda>a elements. True),
     act = (\<lambda>c s. Inr s) \<rparr>"


section \<open>Basic facts\<close>

subsection \<open>Calls and chains\<close>

lemmas accessor_defs =
  LoginPage_usernameField_def LoginPage_passwordField_def LoginPage_loginButton_def
  LoginPage_errorMessage_def LoginPage_errorButton_def
  InventoryPage_pageTitle_def InventoryPage_cartBadge_def InventoryPage_cartIcon_def
  InventoryPage_menuButton_def InventoryPage_logoutLink_def InventoryPage_inventoryItems_def
  InventoryPage_sortDropdown_def
  CartPage_pageTitle_def CartPage_cartItems_def CartPage_checkoutButton_def
  CartPage_continueShoppingButton_def CartPage_cartQuantity_def CartPage_getCartItem_def
  CartPage_getRemoveButton_def CartPage_getItemQuantity_def CartPage_getItemPrice_def

lemmas templated_defs =
  InventoryPage_getAddToCartButton_def InventoryPage_getRemoveButton_def
  InventoryPage_getProductTitle_def InventoryPage_getProductPrice_def
  InventoryPage_getProductImage_def

lemmas method_defs =
  LoginPage_visit_def LoginPage_fillUsername_def LoginPage_fillPassword_def
  LoginPage_clickLogin_def LoginPage_clearError_def LoginPage_login_def
  LoginPage_shouldShowError_def LoginPage_shouldRedirectToInventory_def
  LoginPage_shouldBeOnLoginPage_def
  InventoryPage_addProductToCart_def InventoryPage_removeProductFromCart_def
  InventoryPage_goToCart_def InventoryPage_openMenu_def InventoryPage_logout_def
  InventoryPage_sortProducts_def InventoryPage_clickProductTitle_def
  InventoryPage_shouldHaveTitle_def InventoryPage_shouldShowCartBadge_def
  InventoryPage_shouldNotShowCartBadge_def InventoryPage_shouldHaveProductCount_def
  InventoryPage_shouldShowProduct_def
  CartPage_removeItem_def CartPage_proceedToCheckout_def CartPage_continueShopping_def
  CartPage_shouldHaveTitle_def CartPage_shouldHaveItemCount_def
  CartPage_shouldContainProduct_def CartPage_shouldNotContainProduct_def
  CartPage_shouldShowCorrectPrice_def

lemmas run_defs = method_defs accessor_defs templated_defs cy_def js_bind_def Let_def

lemmas world_defs = spec_world_def session_start_def commands_js_def Commands_add_def blank_def

lemma page_call_world:
  "heap (world_of (page_call c this w)) = heap w
   \<and> registry (world_of (page_call c this w)) = registry w
   \<and> queue (world_of (page_call c this w)) = queue w @ issued w (page_call c this w)"
  by (cases c) (auto simp: run_defs issued_def world_of_def split: sum.splits)

lemma page_call_this: "page_call c this w = Inr (r, w') \<Longrightarrow> r = this"
  by (cases c) (auto simp: run_defs split: sum.splits)

lemma page_call_result:
  "page_call c this w = Inr (r, w') \<Longrightarrow>
     r = this \<and> heap w' = heap w \<and> registry w' = registry w
     \<and> queue w' = queue w @ issued w (page_call c this w)"
  using page_call_world [of c this w] page_call_this [of c this w r w']
  by (simp add: world_of_def)

lemma page_call_thrown:
  "page_call c this w = Inl (e, w') \<Longrightarrow>
     heap w' = heap w \<and> registry w' = registry w
     \<and> queue w' = queue w @ issued w (page_call c this w)"
  using page_call_world [of c this w] by (simp add: world_of_def)

lemma page_call_total:
  "\<not> converts c \<Longrightarrow> \<exists>w'. page_call c this w = Inr (this, w')"
  by (cases c) (auto simp: run_defs)

lemma chain_result:
  "chain cs this w = Inr (r, w') \<Longrightarrow> r = this \<and> heap w' = heap w \<and> registry w' = registry w"
proof (induction cs arbitrary: w)
  case Nil
  then show ?case by simp
next
  case (Cons c cs)
  from Cons.prems obtain r1 w1 where 1: "page_call c this w = Inr (r1, w1)"
    and 2: "chain cs r1 w1 = Inr (r, w')"
    by (auto simp: js_bind_def split: sum.splits)
  from page_call_result [OF 1] have "r1 = this" "heap w1 = heap w" "registry w1 = registry w"
    by simp_all
  with Cons.IH [of w1] 2 show ?case by simp
qed

lemma chain_thrown:
  "chain cs this w = Inl (e, w') \<Longrightarrow> heap w' = heap w \<and> registry w' = registry w"
proof (induction cs arbitrary: w)
  case Nil
  then show ?case by simp
next
  case (Cons c cs)
  show ?case
  proof (cases "page_call c this w")
    case (Inl ew)
    with Cons.prems have "page_call c this w = Inl (e, w')" by (simp add: js_bind_def)
    from page_call_thrown [OF this] show ?thesis by simp
  next
    case (Inr p)
    obtain r1 w1 where p: "p = (r1, w1)" by (cases p)
    with Inr have 1: "page_call c this w = Inr (r1, w1)" by simp
    from page_call_result [OF 1] have r1: "r1 = this" "heap w1 = heap w" "registry w1 = registry w"
      by simp_all
    from Cons.prems 1 r1 have "chain cs this w1 = Inl (e, w')" by (simp add: js_bind_def)
    from Cons.IH [OF this] r1 show ?thesis by simp
  qed
qed

lemma receivers_this: "set (receivers cs this w) \<subseteq> {this}"
proof (induction cs arbitrary: w)
  case Nil
  then show ?case by simp
next
  case (Cons c cs)
  show ?case
  proof (cases "page_call c this w")
    case (Inl e)
    then show ?thesis by simp
  next
    case (Inr p)
    obtain r w' where p: "p = (r, w')" by (cases p)
    with Inr page_call_result [of c this w r w'] have "r = this" by simp
    with Inr p Cons.IH [of w'] show ?thesis by simp
  qed
qed

subsection \<open>Numbers as text, and the login\<close>





lemma login_queue:
  "loginAsStandardUser w = Inr ((), w\<lparr>heap := heap w @ [\<lparr>cls_of = LoginPage, own_fields = []\<rparr>],
     queue := queue w @
       [Visit ''https://www.saucedemo.com/'',
        Get ''#user-name'', Clear, Type (JStr ''standard_user''),
        Get ''#password'', Clear, Type (JStr ''secret_sauce''),
        Get ''#login-button'', Click,
        Url, Should (Include ''/inventory'')]\<rparr>)"
  by (simp add: loginAsStandardUser_def new_def commands_scope_def run_defs)

lemma registry_session_start:
  "registry session_start =
     [(''loginAsStandardUser'', LoginAsStandardUser), (''loginAs'', LoginAs),
      (''addProductViaUI'', AddProductViaUI), (''clearCart'', ClearCart),
      (''setupCartWithProducts'', SetupCartWithProducts)]"
  by (simp add: world_defs)

lemma cy_custom_loginAsStandardUser:
  "map_of (rev (registry w)) ''loginAsStandardUser'' = Some LoginAsStandardUser
     \<Longrightarrow> cy_custom ''loginAsStandardUser'' args w = Some (loginAsStandardUser w)"
  by (subst cy_custom.simps) simp

lemma login_registered:
  "registry w = registry session_start
     \<Longrightarrow> cy_custom ''loginAsStandardUser'' args w = Some (loginAsStandardUser w)"
  by (rule cy_custom_loginAsStandardUser) (simp add: registry_session_start)

subsection \<open>Sequences\<close>






subsection \<open>Custom commands and the registry\<close>

lemma cy_custom_clearCart:
  "map_of (rev (registry w)) ''clearCart'' = Some ClearCart
     \<Longrightarrow> cy_custom ''clearCart'' args w = Some (clearCart w)"
  by (subst cy_custom.simps) simp

lemma cy_custom_addProductViaUI:
  "map_of (rev (registry w)) ''addProductViaUI'' = Some AddProductViaUI
     \<Longrightarrow> cy_custom ''addProductViaUI'' args w = Some (addProductViaUI (arg 0 args) w)"
  by (subst cy_custom.simps) simp

lemma cy_custom_unregistered:
  "map_of (rev (registry w)) name = None
     \<Longrightarrow> cy_custom name args w
           = Some (Inl (TypeError (''cy.'' @ name @ '' is not a function''), w))"
  by (subst cy_custom.simps) simp

lemma clearCart_throws:
  "clearCart w = Inl (ReferenceError ''CartPage'',
     w\<lparr>heap := heap w @ [\<lparr>cls_of = InventoryPage, own_fields = []\<rparr>]\<rparr>)"
  by (simp add: clearCart_def new_def commands_scope_def js_bind_def class_name_def)

lemma world_of_simps:
  "world_of (Inl (e, w)) = w"
  "world_of (Inr (x, w)) = w"
  by (simp_all add: world_of_def)

lemma js_bind_registry:
  fixes w :: world
  assumes "registry (world_of m) = registry w"
    and "\<And>x w1. registry w1 = registry w \<Longrightarrow> registry (world_of (f x w1)) = registry w"
  shows "registry (world_of (js_bind m f)) = registry w"
proof (cases m)
  case (Inl ew)
  with assms(1) show ?thesis by (simp add: js_bind_def world_of_def)
next
  case (Inr p)
  obtain x w1 where "p = (x, w1)" by (cases p)
  with Inr assms(1) have "registry w1 = registry w" by (simp add: world_of_def)
  from assms(2) [OF this] Inr \<open>p = (x, w1)\<close> show ?thesis by (simp add: js_bind_def)
qed

lemma new_registry: "registry (world_of (new scope k w)) = registry w"
  by (simp add: new_def world_of_def)

lemma addProductToCart_registry:
  "registry (world_of (InventoryPage_addProductToCart p this w)) = registry w"
  using page_call_world [of "I_addProductToCart p" this w] by simp

lemma forEach_registry:
  "registry (world_of (forEach_addProductToCart ps this w)) = registry w"
proof (induction ps arbitrary: w)
  case Nil
  then show ?case by (simp add: world_of_def)
next
  case (Cons p ps)
  show ?case
    unfolding forEach_addProductToCart.simps
  proof (rule js_bind_registry)
    show "registry (world_of (InventoryPage_addProductToCart p this w)) = registry w"
      by (rule addProductToCart_registry)
  next
    fix x and w1 :: world assume "registry w1 = registry w"
    with Cons.IH [of w1] show "registry (world_of (forEach_addProductToCart ps this w1)) = registry w"
      by simp
  qed
qed

lemma products_forEach_registry:
  "registry (world_of (products_forEach v this w)) = registry w"
  by (cases v) (simp_all add: products_forEach_def forEach_registry, simp_all add: world_of_def)

lemma custom_bodies_registry:
  "registry (world_of (loginAsStandardUser w)) = registry w"
  "registry (world_of (loginAs a b w)) = registry w"
  "registry (world_of (addProductViaUI a w)) = registry w"
  "registry (world_of (clearCart w)) = registry w"
  by (auto simp: loginAsStandardUser_def loginAs_def addProductViaUI_def clearCart_def
      new_def run_defs world_of_def split: sum.splits if_splits)

lemma cy_custom_registry_aux:
  assumes "cy_custom name args w = Some y"
  shows "registry (world_of y) = registry w"
proof (rule cy_custom.raw_induct
    [where P = "\<lambda>name args w y. registry (world_of y) = registry w", OF _ assms], goal_cases)
  case (1 cyc name args w y)
  show ?case
  proof (cases "map_of (rev (registry w)) name")
    case None
    with 1 show ?thesis by (auto simp: world_of_def)
  next
    case (Some k)
    show ?thesis
    proof (cases k)
      case SetupCartWithProducts
      with Some 1(2) obtain r where r: "cyc ''loginAsStandardUser'' [] w = Some r"
        and y: "y = js_bind r (\<lambda>_ w.
            js_bind (new commands_scope InventoryPage w) (\<lambda>inventoryPage w.
            products_forEach (arg 0 args) inventoryPage w))"
        by (auto simp: bind_eq_Some_conv)
      from 1(1) [OF r] have r1: "registry (world_of r) = registry w" .
      show ?thesis
        unfolding y
      proof (rule js_bind_registry [OF r1])
        fix x and w1 :: world assume w1: "registry w1 = registry w"
        show "registry (world_of (js_bind (new commands_scope InventoryPage w1)
            (\<lambda>inventoryPage w. products_forEach (arg 0 args) inventoryPage w))) = registry w"
        proof (rule js_bind_registry)
          show "registry (world_of (new commands_scope InventoryPage w1)) = registry w"
            using w1 by (simp add: new_registry)
        next
          fix ip and w2 :: world assume "registry w2 = registry w"
          then show "registry (world_of (products_forEach (arg 0 args) ip w2)) = registry w"
            by (simp add: products_forEach_registry)
        qed
      qed
    qed (use Some 1(2) in \<open>auto simp: custom_bodies_registry\<close>)
  qed
qed

lemma chain_registry: "registry (world_of (chain cs this w)) = registry w"
proof (cases "chain cs this w")
  case (Inl ew)
  obtain e w' where "ew = (e, w')" by (cases ew)
  with Inl chain_thrown [of cs this w e w'] show ?thesis by (simp add: world_of_def)
next
  case (Inr p)
  obtain r w' where "p = (r, w')" by (cases p)
  with Inr chain_result [of cs this w r w'] show ?thesis by (simp add: world_of_def)
qed

lemma run_stmt_registry:
  "run_stmt env s w = Some y \<Longrightarrow> registry (world_of y) = registry w"
proof (cases s)
  case (OnPage k calls)
  assume a: "run_stmt env s w = Some y"
  show ?thesis
  proof (cases "map_of env k")
    case None
    with a OnPage show ?thesis by (auto simp: world_of_def)
  next
    case (Some this)
    with a OnPage have "y = js_bind (chain calls this w) (\<lambda>_ w. Inr ((), w))" by simp
    moreover have "registry (world_of (js_bind (chain calls this w) (\<lambda>_ w. Inr ((), w))))
        = registry w"
    proof (rule js_bind_registry)
      show "registry (world_of (chain calls this w)) = registry w" by (rule chain_registry)
    next
      fix x and w1 :: world assume "registry w1 = registry w"
      then show "registry (world_of (Inr ((), w1))) = registry w" by (simp add: world_of_simps)
    qed
    ultimately show ?thesis by simp
  qed
next
  case (CyCustom name args)
  assume "run_stmt env s w = Some y"
  with CyCustom show ?thesis by (auto dest: cy_custom_registry_aux)
next
  case (ErrorMessageShould a)
  assume "run_stmt env s w = Some y"
  with ErrorMessageShould show ?thesis by (auto simp: run_defs world_of_def)
next
  case (UrlShould a)
  assume "run_stmt env s w = Some y"
  with UrlShould show ?thesis by (auto simp: run_defs world_of_def)
qed

lemma run_stmts_registry:
  "run_stmts env ss w = Some y \<Longrightarrow> registry (world_of y) = registry w"
proof (induction ss arbitrary: w)
  case Nil
  then show ?case by (auto simp: world_of_def)
next
  case (Cons s ss)
  from Cons.prems obtain y1 where y1: "run_stmt env s w = Some y1"
    and rest: "(case y1 of Inl ew \<Rightarrow> Some (Inl ew) | Inr (u, w1) \<Rightarrow> run_stmts env ss w1) = Some y"
    by (auto simp: bind_eq_Some_conv)
  from run_stmt_registry [OF y1] have r1: "registry (world_of y1) = registry w" .
  show ?case
  proof (cases y1)
    case (Inl ew)
    with rest r1 show ?thesis by auto
  next
    case (Inr p)
    obtain u w1 where p: "p = (u, w1)" by (cases p)
    with Inr rest have "run_stmts env ss w1 = Some y" by simp
    from Cons.IH [OF this] Inr p r1 show ?thesis by (simp add: world_of_def)
  qed
qed

lemma make_objects_registry:
  "registry (world_of (make_objects scope ks w)) = registry w"
proof (induction ks arbitrary: w)
  case Nil
  then show ?case by (simp add: world_of_def)
next
  case (Cons k ks)
  show ?case
    unfolding make_objects.simps
  proof (rule js_bind_registry)
    show "registry (world_of (new scope k w)) = registry w" by (rule new_registry)
  next
    fix r and w1 :: world assume w1: "registry w1 = registry w"
    show "registry (world_of (js_bind (make_objects scope ks w1)
        (\<lambda>env w. Inr ((k, r) # env, w)))) = registry w"
      by (rule js_bind_registry) (use w1 Cons.IH [of w1] in \<open>simp_all add: world_of_def\<close>)
  qed
qed

lemma run_test_registry:
  "run_test sp body w = Some y \<Longrightarrow> registry (world_of y) = registry w"
proof -
  assume a: "run_test sp body w = Some y"
  show ?thesis
  proof (cases "make_objects (imported sp) (page_objects sp) w")
    case (Inl ew)
    obtain e w1 where ew: "ew = (e, w1)" by (cases ew)
    with Inl make_objects_registry [of "imported sp" "page_objects sp" w]
    have "registry w1 = registry w" by (simp add: world_of_simps)
    moreover from a Inl ew have "y = Inl (e, w1)" by (simp add: run_test_def)
    ultimately show ?thesis by (simp add: world_of_simps)
  next
    case (Inr p)
    obtain env w1 where p: "p = (env, w1)" by (cases p)
    with Inr a have "run_stmts env (beforeEach sp @ body) w1 = Some y"
      by (simp add: run_test_def)
    from run_stmts_registry [OF this] Inr p
      make_objects_registry [of "imported sp" "page_objects sp" w]
    show ?thesis by (simp add: world_of_def)
  qed
qed

lemma callbacks_registry:
  "clearCart_then k n w = Inr (u, w') \<Longrightarrow> registry w' = registry w"
  "clearCart_each k t w = Inr (u, w') \<Longrightarrow> registry w' = registry w"
  by (auto simp: clearCart_then_def clearCart_each_def run_defs split: if_splits)

lemma login_spec_runs:
  "\<forall>t \<in> set (tests login_spec). \<exists>w'. run_test login_spec t session_start = Some (Inr ((), w'))
     \<and> \<not> list_ex is_callback (queue w')"
  by (simp add: login_spec_def run_test_def new_def js_bind_def standard_login_def
      invalid_login_def run_defs world_defs)

lemma shopping_spec_runs:
  "\<forall>t \<in> set (tests shopping_spec).
     \<exists>w'. run_test shopping_spec t session_start = Some (Inr ((), w'))
       \<and> \<not> list_ex is_callback (queue w')"
  by (simp add: shopping_spec_def run_test_def new_def login_registered login_queue
      backpack_def bike_light_def bolt_t_shirt_def toString_def number_string_def
      digits.simps digit_char_def run_defs world_defs)

lemma shopping_spec_objects:
  "make_objects (imported shopping_spec) (page_objects shopping_spec) session_start
     = Inr (spec_env, spec_world)"
  by (simp add: shopping_spec_def new_def js_bind_def spec_env_def world_defs)

subsection \<open>Loops over products, and callbacks\<close>















section \<open>Fluent chaining\<close>

text \<open>
  C1, as the code has it. A method returns the instance it was called on unless the
  conversion of its argument to a string throws. Five methods convert an argument.
  \<open>addProductToCart\<close>, \<open>removeProductFromCart\<close>, \<open>clickProductTitle\<close> and \<open>shouldShowProduct\<close>
  put \<open>productId\<close> into a template literal, which throws a \<open>TypeError\<close> on a symbol and on
  an object that has no conversion to a string (such as \<open>Object.create(null)\<close>); they throw
  before anything is queued. \<open>shouldShowCartBadge\<close> calls \<open>count.toString()\<close> after it has
  queued the query for the badge, which throws on \<open>undefined\<close>, on \<open>null\<close> and on an object
  that has no \<open>toString\<close> to call. In every other case these five return the instance, and
  every other action and assertion method of the three Page Objects returns it for every
  argument. A chain of calls that completes returns the instance it started on, and every
  call of a chain, completed or not, is made on that one instance.
\<close>

theorem page_call_returns_this:
  \<open>(\<not> converts c \<longrightarrow> (\<exists>w'. page_call c this w = Inr (this, w')))
   \<and> page_call (I_shouldShowCartBadge v) this w =
       (case toString v of
          Inl e \<Rightarrow> Inl (e, w\<lparr>queue := queue w @ [Get ''.shopping_cart_badge'']\<rparr>)
        | Inr s \<Rightarrow> Inr (this, w\<lparr>queue := queue w @
                     [Get ''.shopping_cart_badge'', Should (Contain s)]\<rparr>))
   \<and> page_call (I_addProductToCart v) this w =
       (case js_string v of
          Inl e \<Rightarrow> Inl (e, w)
        | Inr s \<Rightarrow> Inr (this, w\<lparr>queue := queue w @
                     [Get (''[data-test="add-to-cart-'' @ s @ ''"]''), Click]\<rparr>))
   \<and> page_call (I_removeProductFromCart v) this w =
       (case js_string v of
          Inl e \<Rightarrow> Inl (e, w)
        | Inr s \<Rightarrow> Inr (this, w\<lparr>queue := queue w @
                     [Get (''[data-test="remove-'' @ s @ ''"]''), Click]\<rparr>))
   \<and> page_call (I_clickProductTitle v) this w =
       (case js_string v of
          Inl e \<Rightarrow> Inl (e, w)
        | Inr s \<Rightarrow> Inr (this, w\<lparr>queue := queue w @
                     [Get (''#item_'' @ s @ ''_title_link''), Click]\<rparr>))
   \<and> page_call (I_shouldShowProduct v) this w =
       (case js_string v of
          Inl e \<Rightarrow> Inl (e, w)
        | Inr s \<Rightarrow> Inr (this, w\<lparr>queue := queue w @
                     [Get (''[data-test="add-to-cart-'' @ s @ ''"]''), Should Exist]\<rparr>))
   \<and> (\<forall>r w'. chain cs this w = Inr (r, w') \<longrightarrow> r = this)
   \<and> set (receivers cs this w) \<subseteq> {this}\<close>
proof (intro conjI impI allI)
  assume "\<not> converts c"
  then show "\<exists>w'. page_call c this w = Inr (this, w')" by (rule page_call_total)
next
  fix r w' assume "chain cs this w = Inr (r, w')"
  then show "r = this" using chain_result by blast
next
  show "set (receivers cs this w) \<subseteq> {this}" by (rule receivers_this)
qed (simp_all add: run_defs split: sum.splits)

text \<open>
  The theorem at work on the inventory page object of the shopping spec: \<open>sortProducts\<close>
  returns it; \<open>addProductToCart\<close> throws on a symbol, of which \<open>shouldShowCartBadge\<close> asserts
  the description; and the chain of the first shopping scenario returns the object and
  calls nothing else.
\<close>

theorem page_call_returns_this_witness:
  \<open>\<not> converts (I_sortProducts (JStr ''lohi''))
   \<and> (\<exists>w'. page_call (I_sortProducts (JStr ''lohi'')) 1 spec_world = Inr (1, w'))
   \<and> page_call (I_addProductToCart (JSymbol ''id'')) 1 spec_world
        = Inl (TypeError ''Cannot convert a Symbol value to a string'', spec_world)
   \<and> page_call (I_shouldShowCartBadge (JSymbol ''id'')) 1 spec_world
        = Inr (1, spec_world\<lparr>queue :=
            [Get ''.shopping_cart_badge'', Should (Contain (JStr ''Symbol(id)''))]\<rparr>)
   \<and> (\<exists>w'. chain [I_addProductToCart backpack, I_shouldShowCartBadge (JNum 1)] 1 spec_world
          = Inr (1, w'))
   \<and> set (receivers [I_addProductToCart backpack, I_shouldShowCartBadge (JNum 1)] 1 spec_world)
        \<subseteq> {1}\<close>
  using page_call_returns_this [where c = "I_sortProducts (JStr ''lohi'')"
      and v = "JSymbol ''id''" and this = 1 and w = spec_world
      and cs = "[I_addProductToCart backpack, I_shouldShowCartBadge (JNum 1)]"]
  by (simp add: run_defs toString_def world_defs backpack_def)

text \<open>
  C1 as stated fails: called with \<open>undefined\<close>, as in \<open>inventoryPage.shouldShowCartBadge()\<close>,
  the method does not return the instance. It queues the query for the badge and throws.
\<close>

theorem shouldShowCartBadge_undefined_throws:
  \<open>page_call (I_shouldShowCartBadge JUndefined) 1 spec_world
     = Inl (TypeError ''Cannot read properties of undefined (reading 'toString')'',
            spec_world\<lparr>queue := [Get ''.shopping_cart_badge'']\<rparr>)\<close>
  by (simp add: run_defs toString_def world_defs)

section \<open>Assertions on counts\<close>

text \<open>
  C2. For every expected count \<open>n\<close>, \<open>CartPage.shouldHaveItemCount(n)\<close> returns \<open>this\<close> and
  branches on \<open>n\<close> being zero: at \<open>n = 0\<close> it queries the cart items and asserts that no such
  element exists, and at any other \<open>n\<close> it queries them and asserts that the collection has
  length \<open>n\<close>.
\<close>

theorem shouldHaveItemCount_branches:
  "CartPage_shouldHaveItemCount (JNum n) this w =
     Inr (this, w\<lparr>queue := queue w @
       (if n = 0 then [Get ''.cart_item'', Should NotExist]
        else [Get ''.cart_item'', Should (HaveLength (JNum n))])\<rparr>)"
  by (simp add: run_defs)




text \<open>
  C4. The two representations of an empty cart disagree. \<open>shouldHaveItemCount(0)\<close> and
  \<open>shouldNotShowCartBadge()\<close> assert that the element does not exist;
  \<open>shouldNotContainProduct(p)\<close> queries the name elements of the cart items and asserts
  something else of them. On a page where the cart has no item (and so no name element and
  no badge), an engine that reports "no elements" as "element not found" passes the first
  two and fails the third with element-not-found, whatever \<open>p\<close> is.
\<close>

theorem emptiness_representations_disagree:
  assumes "resolve eng ''.cart_item'' page = []"
    and "resolve eng ''.cart_item .inventory_item_name'' page = []"
    and "resolve eng ''.shopping_cart_badge'' page = []"
  shows "issued w (CartPage_shouldHaveItemCount (JNum 0) this w)
           = [Get ''.cart_item'', Should NotExist]
     \<and> issued w (InventoryPage_shouldNotShowCartBadge this w)
           = [Get ''.shopping_cart_badge'', Should NotExist]
     \<and> issued w (CartPage_shouldNotContainProduct p this w)
           = [Get ''.cart_item .inventory_item_name'', Should (NotContain p)]
     \<and> snd (run_queue (engine_step eng)
           (issued w (CartPage_shouldHaveItemCount (JNum 0) this w)) (page, s)) = Inr (page, [])
     \<and> snd (run_queue (engine_step eng)
           (issued w (InventoryPage_shouldNotShowCartBadge this w)) (page, s)) = Inr (page, [])
     \<and> snd (run_queue (engine_step eng)
           (issued w (CartPage_shouldNotContainProduct p this w)) (page, s)) = Inl ElementNotFound"
  using assms by (simp add: run_defs issued_def world_of_def get_should_def)

text \<open>
  The theorem on the empty cart of \<open>cart_engine\<close>, asked about the backpack.
\<close>

theorem emptiness_representations_disagree_witness:
  "resolve cart_engine ''.cart_item'' [] = []
   \<and> resolve cart_engine ''.cart_item .inventory_item_name'' [] = []
   \<and> resolve cart_engine ''.shopping_cart_badge'' [] = []
   \<and> snd (run_queue (engine_step cart_engine) [Get ''.cart_item'', Should NotExist] ([], []))
        = Inr ([], [])
   \<and> snd (run_queue (engine_step cart_engine)
        [Get ''.cart_item .inventory_item_name'', Should (NotContain (JStr ''Sauce Labs Backpack''))]
        ([], [])) = Inl ElementNotFound"
proof -
  have r1: "resolve cart_engine ''.cart_item'' [] = []"
    and r2: "resolve cart_engine ''.cart_item .inventory_item_name'' [] = []"
    and r3: "resolve cart_engine ''.shopping_cart_badge'' [] = []"
    by (simp_all add: cart_engine_def)
  note t = emptiness_representations_disagree [OF r1 r2 r3, where w = spec_world and this = 2
      and p = "JStr ''Sauce Labs Backpack''" and s = "[]"]
  from t have i1: "issued spec_world (CartPage_shouldHaveItemCount (JNum 0) 2 spec_world)
      = [Get ''.cart_item'', Should NotExist]"
    by (rule conjunct1)
  from t have i3: "issued spec_world
      (CartPage_shouldNotContainProduct (JStr ''Sauce Labs Backpack'') 2 spec_world)
      = [Get ''.cart_item .inventory_item_name'', Should (NotContain (JStr ''Sauce Labs Backpack''))]"
    by (rule conjunct2 [THEN conjunct2, THEN conjunct1])
  from t have "snd (run_queue (engine_step cart_engine)
      (issued spec_world (CartPage_shouldHaveItemCount (JNum 0) 2 spec_world)) ([], []))
      = Inr ([], [])"
    by (rule conjunct2 [THEN conjunct2, THEN conjunct2, THEN conjunct1])
  then have p1: "snd (run_queue (engine_step cart_engine) [Get ''.cart_item'', Should NotExist]
      ([], [])) = Inr ([], [])"
    by (simp only: i1)
  from t have "snd (run_queue (engine_step cart_engine)
      (issued spec_world
        (CartPage_shouldNotContainProduct (JStr ''Sauce Labs Backpack'') 2 spec_world)) ([], []))
      = Inl ElementNotFound"
    by (rule conjunct2 [THEN conjunct2, THEN conjunct2, THEN conjunct2, THEN conjunct2])
  then have p3: "snd (run_queue (engine_step cart_engine)
      [Get ''.cart_item .inventory_item_name'', Should (NotContain (JStr ''Sauce Labs Backpack''))]
      ([], [])) = Inl ElementNotFound"
    by (simp only: i3)
  from r1 r2 r3 p1 p3 show ?thesis by (intro conjI)
qed

section \<open>Actions\<close>



text \<open>
  C6. For every username and password, \<open>login(username, password)\<close> is the sequence
  \<open>fillUsername(username)\<close>, \<open>fillPassword(password)\<close>, \<open>clickLogin()\<close> on \<open>this\<close>, in that
  order; it returns \<open>this\<close> and queues the commands of these three steps and no other.
\<close>

theorem login_is_fill_fill_click:
  "LoginPage_login username password this w
     = chain [L_fillUsername username, L_fillPassword password, L_clickLogin] this w
   \<and> LoginPage_login username password this w
     = Inr (this, w\<lparr>queue := queue w @
         [Get ''#user-name'', Clear, Type username,
          Get ''#password'', Clear, Type password,
          Get ''#login-button'', Click]\<rparr>)"
  by (simp add: run_defs)

section \<open>State\<close>

text \<open>
  C7. A new Page Object has no field, and no method call changes an object, whether it
  returns or throws. Every accessor adds its query to the queue on each access: the
  commands it adds are the same whatever the state (the first of them a selector query),
  and a second access adds them a second time. A templated accessor does so with the
  selector built from its identifier, for every identifier that has a string form; for one
  that has none it throws and adds nothing.
\<close>

theorem page_objects_hold_no_state:
  "(new scope k w = Inr (r, w') \<longrightarrow> heap w' ! r = \<lparr>cls_of = k, own_fields = []\<rparr>)
   \<and> (page_call c this w = Inr (r, w') \<longrightarrow> heap w' = heap w)
   \<and> (page_call c this w = Inl (e, w') \<longrightarrow> heap w' = heap w)
   \<and> (g \<in> set (accessors v) \<longrightarrow>
        g w = w\<lparr>queue := queue w @ queue (g blank)\<rparr>
        \<and> g (g w) = w\<lparr>queue := queue w @ queue (g blank) @ queue (g blank)\<rparr>
        \<and> queue (g blank) \<noteq> [] \<and> is_get (hd (queue (g blank))))
   \<and> (t \<in> set templated_accessors \<and> js_string v = Inr s \<longrightarrow>
        (\<exists>sel. \<forall>w1. t v w1 = Inr (w1\<lparr>queue := queue w1 @ [Get sel]\<rparr>)))
   \<and> (t \<in> set templated_accessors \<and> js_string v = Inl e \<longrightarrow> t v w = Inl (e, w))"
proof (intro conjI impI)
  assume "new scope k w = Inr (r, w')"
  then show "heap w' ! r = \<lparr>cls_of = k, own_fields = []\<rparr>"
    by (auto simp: new_def split: if_splits)
next
  assume "page_call c this w = Inr (r, w')"
  then show "heap w' = heap w" using page_call_result by blast
next
  assume "page_call c this w = Inl (e, w')"
  then show "heap w' = heap w" using page_call_thrown by blast
next
  assume g: "g \<in> set (accessors v)"
  then show "g w = w\<lparr>queue := queue w @ queue (g blank)\<rparr>"
    by (auto simp: accessors_def accessor_defs cy_def Let_def blank_def)
  from g show "g (g w) = w\<lparr>queue := queue w @ queue (g blank) @ queue (g blank)\<rparr>"
    by (auto simp: accessors_def accessor_defs cy_def Let_def blank_def)
  from g show "queue (g blank) \<noteq> []"
    by (auto simp: accessors_def accessor_defs cy_def Let_def blank_def)
  from g show "is_get (hd (queue (g blank)))"
    by (auto simp: accessors_def accessor_defs cy_def Let_def blank_def)
next
  assume "t \<in> set templated_accessors \<and> js_string v = Inr s"
  then show "\<exists>sel. \<forall>w1. t v w1 = Inr (w1\<lparr>queue := queue w1 @ [Get sel]\<rparr>)"
    by (auto simp: templated_accessors_def templated_defs cy_def)
next
  assume "t \<in> set templated_accessors \<and> js_string v = Inl e"
  then show "t v w = Inl (e, w)"
    by (auto simp: templated_accessors_def templated_defs)
qed

text \<open>
  The theorem on the objects of the shopping spec: a new cart page, a login, a badge check
  that throws, the badge accessor read twice, and the remove button of the backpack and of
  a symbol.
\<close>

theorem page_objects_hold_no_state_witness:
  \<open>(\<exists>w'. new [LoginPage, InventoryPage, CartPage] CartPage spec_world = Inr (3, w')
         \<and> heap w' ! 3 = \<lparr>cls_of = CartPage, own_fields = []\<rparr>)
   \<and> (\<exists>w'. page_call standard_login 0 spec_world = Inr (0, w') \<and> heap w' = heap spec_world)
   \<and> (\<exists>e w'. page_call (I_shouldShowCartBadge JNull) 1 spec_world = Inl (e, w')
         \<and> heap w' = heap spec_world)
   \<and> InventoryPage_cartBadge \<in> set (accessors backpack)
   \<and> queue (InventoryPage_cartBadge (InventoryPage_cartBadge spec_world))
        = [Get ''.shopping_cart_badge'', Get ''.shopping_cart_badge'']
   \<and> InventoryPage_getRemoveButton \<in> set templated_accessors
   \<and> js_string backpack = Inr ''sauce-labs-backpack''
   \<and> (\<exists>sel. \<forall>w1. InventoryPage_getRemoveButton backpack w1
         = Inr (w1\<lparr>queue := queue w1 @ [Get sel]\<rparr>))
   \<and> js_string (JSymbol ''id'') = Inl (TypeError ''Cannot convert a Symbol value to a string'')
   \<and> InventoryPage_getRemoveButton (JSymbol ''id'') spec_world
        = Inl (TypeError ''Cannot convert a Symbol value to a string'', spec_world)\<close>
proof -
  obtain w1 where n: "new [LoginPage, InventoryPage, CartPage] CartPage spec_world = Inr (3, w1)"
    by (simp add: new_def world_defs)
  from page_objects_hold_no_state [where scope = "[LoginPage, InventoryPage, CartPage]"
      and k = CartPage and w = spec_world and r = 3 and w' = w1,
      THEN conjunct1, THEN mp, OF n]
  have 1: "heap w1 ! 3 = \<lparr>cls_of = CartPage, own_fields = []\<rparr>" .
  obtain w2 where c: "page_call standard_login 0 spec_world = Inr (0, w2)"
    by (simp add: standard_login_def run_defs)
  from page_objects_hold_no_state [where c = standard_login and this = 0 and w = spec_world
      and r = 0 and w' = w2, THEN conjunct2, THEN conjunct1, THEN mp, OF c]
  have 2: "heap w2 = heap spec_world" .
  obtain e3 w3 where t: "page_call (I_shouldShowCartBadge JNull) 1 spec_world = Inl (e3, w3)"
    by (simp add: run_defs toString_def)
  from page_objects_hold_no_state [where c = "I_shouldShowCartBadge JNull" and this = 1
      and w = spec_world and e = e3 and w' = w3,
      THEN conjunct2, THEN conjunct2, THEN conjunct1, THEN mp, OF t]
  have 3: "heap w3 = heap spec_world" .
  have g: "InventoryPage_cartBadge \<in> set (accessors backpack)"
    by (simp add: accessors_def)
  from page_objects_hold_no_state [where g = InventoryPage_cartBadge and v = backpack
      and w = spec_world, THEN conjunct2, THEN conjunct2, THEN conjunct2, THEN conjunct1,
      THEN mp, OF g]
  have "InventoryPage_cartBadge (InventoryPage_cartBadge spec_world)
      = spec_world\<lparr>queue := queue spec_world @ queue (InventoryPage_cartBadge blank)
          @ queue (InventoryPage_cartBadge blank)\<rparr>"
    by (rule conjunct2 [THEN conjunct1])
  then have 4: "queue (InventoryPage_cartBadge (InventoryPage_cartBadge spec_world))
        = [Get ''.shopping_cart_badge'', Get ''.shopping_cart_badge'']"
    by (simp add: world_defs InventoryPage_cartBadge_def cy_def)
  have m: "InventoryPage_getRemoveButton \<in> set templated_accessors"
    by (simp add: templated_accessors_def)
  have s: "js_string backpack = Inr ''sauce-labs-backpack''" by (simp add: backpack_def)
  from page_objects_hold_no_state [where t = InventoryPage_getRemoveButton and v = backpack
      and s = "''sauce-labs-backpack''", THEN conjunct2, THEN conjunct2, THEN conjunct2,
      THEN conjunct2, THEN conjunct1, THEN mp, OF conjI [OF m s]]
  have 5: "\<exists>sel. \<forall>w1. InventoryPage_getRemoveButton backpack w1
         = Inr (w1\<lparr>queue := queue w1 @ [Get sel]\<rparr>)" .
  have y: "js_string (JSymbol ''id'')
      = Inl (TypeError ''Cannot convert a Symbol value to a string'')" by simp
  from page_objects_hold_no_state [where t = InventoryPage_getRemoveButton
      and v = "JSymbol ''id''" and w = spec_world
      and e = "TypeError ''Cannot convert a Symbol value to a string''",
      THEN conjunct2, THEN conjunct2, THEN conjunct2, THEN conjunct2, THEN conjunct2,
      THEN mp, OF conjI [OF m y]]
  have 6: "InventoryPage_getRemoveButton (JSymbol ''id'') spec_world
        = Inl (TypeError ''Cannot convert a Symbol value to a string'', spec_world)" .
  from n 1 c 2 t 3 g 4 m s 5 y 6 show ?thesis by blast
qed

section \<open>Failures\<close>



section \<open>Custom commands\<close>

text \<open>
  C9. Loading the commands module registers the five custom commands, each name once. No
  method of a Page Object, no custom command, no callback and no scenario writes the
  registry: whatever returns or throws leaves it as it found it. With the module loaded
  before the specs, every scenario of the two specs runs through on the registry of the
  five commands and ends on it; were the module not loaded, a scenario of the shopping
  spec would stop at \<open>cy.loginAsStandardUser()\<close>, which would not be a function.
\<close>

theorem commands_registered_once:
  "registry (commands_js w) = registry w @
     [(''loginAsStandardUser'', LoginAsStandardUser), (''loginAs'', LoginAs),
      (''addProductViaUI'', AddProductViaUI), (''clearCart'', ClearCart),
      (''setupCartWithProducts'', SetupCartWithProducts)]
   \<and> map fst (registry session_start) =
     [''loginAsStandardUser'', ''loginAs'', ''addProductViaUI'', ''clearCart'',
      ''setupCartWithProducts'']
   \<and> distinct (map fst (registry session_start))
   \<and> (page_call c this w = Inr (r, w') \<longrightarrow> registry w' = registry w)
   \<and> (cy_custom name args w = Some (Inr (u, w')) \<longrightarrow> registry w' = registry w)
   \<and> (clearCart_then k n w = Inr (u, w') \<longrightarrow> registry w' = registry w)
   \<and> (clearCart_each k t w = Inr (u, w') \<longrightarrow> registry w' = registry w)
   \<and> (run_test sp body w = Some (Inr (u, w')) \<longrightarrow> registry w' = registry w)
   \<and> (page_call c this w = Inl (e, w') \<longrightarrow> registry w' = registry w)
   \<and> (cy_custom name args w = Some (Inl (e, w')) \<longrightarrow> registry w' = registry w)
   \<and> (run_test sp body w = Some (Inl (e, w')) \<longrightarrow> registry w' = registry w)
   \<and> (\<forall>t \<in> set (tests login_spec). \<exists>w'.
        run_test login_spec t session_start = Some (Inr ((), w'))
        \<and> registry w' = registry session_start)
   \<and> (\<forall>t \<in> set (tests shopping_spec). \<exists>w'.
        run_test shopping_spec t session_start = Some (Inr ((), w'))
        \<and> registry w' = registry session_start)
   \<and> run_test shopping_spec body blank
        = Some (Inl (TypeError ''cy.loginAsStandardUser is not a function'',
            blank\<lparr>heap := [\<lparr>cls_of = LoginPage, own_fields = []\<rparr>,
              \<lparr>cls_of = InventoryPage, own_fields = []\<rparr>,
              \<lparr>cls_of = CartPage, own_fields = []\<rparr>]\<rparr>))"
proof (intro conjI impI)
  show "registry (commands_js w) = registry w @
     [(''loginAsStandardUser'', LoginAsStandardUser), (''loginAs'', LoginAs),
      (''addProductViaUI'', AddProductViaUI), (''clearCart'', ClearCart),
      (''setupCartWithProducts'', SetupCartWithProducts)]"
    by (simp add: commands_js_def Commands_add_def)
  show "map fst (registry session_start) =
     [''loginAsStandardUser'', ''loginAs'', ''addProductViaUI'', ''clearCart'',
      ''setupCartWithProducts'']"
    by (simp add: registry_session_start)
  show "distinct (map fst (registry session_start))"
    by (simp add: registry_session_start)
next
  assume "page_call c this w = Inr (r, w')"
  then show "registry w' = registry w" using page_call_result by blast
next
  assume "cy_custom name args w = Some (Inr (u, w'))"
  from cy_custom_registry_aux [OF this] show "registry w' = registry w"
    by (simp add: world_of_simps)
next
  assume "clearCart_then k n w = Inr (u, w')"
  then show "registry w' = registry w" by (rule callbacks_registry)
next
  assume "clearCart_each k t w = Inr (u, w')"
  then show "registry w' = registry w" by (rule callbacks_registry)
next
  assume "run_test sp body w = Some (Inr (u, w'))"
  from run_test_registry [OF this] show "registry w' = registry w"
    by (simp add: world_of_simps)
next
  assume "page_call c this w = Inl (e, w')"
  then show "registry w' = registry w" using page_call_thrown by blast
next
  assume "cy_custom name args w = Some (Inl (e, w'))"
  from cy_custom_registry_aux [OF this] show "registry w' = registry w"
    by (simp add: world_of_simps)
next
  assume "run_test sp body w = Some (Inl (e, w'))"
  from run_test_registry [OF this] show "registry w' = registry w"
    by (simp add: world_of_simps)
next
  show "\<forall>t \<in> set (tests login_spec). \<exists>w'.
        run_test login_spec t session_start = Some (Inr ((), w'))
        \<and> registry w' = registry session_start"
  proof
    fix t assume "t \<in> set (tests login_spec)"
    with login_spec_runs obtain w' where 1: "run_test login_spec t session_start = Some (Inr ((), w'))"
      by blast
    from run_test_registry [OF 1] have "registry w' = registry session_start"
      by (simp add: world_of_simps)
    with 1 show "\<exists>w'. run_test login_spec t session_start = Some (Inr ((), w'))
        \<and> registry w' = registry session_start" by blast
  qed
  show "\<forall>t \<in> set (tests shopping_spec). \<exists>w'.
        run_test shopping_spec t session_start = Some (Inr ((), w'))
        \<and> registry w' = registry session_start"
  proof
    fix t assume "t \<in> set (tests shopping_spec)"
    with shopping_spec_runs obtain w'
      where 1: "run_test shopping_spec t session_start = Some (Inr ((), w'))"
      by blast
    from run_test_registry [OF 1] have "registry w' = registry session_start"
      by (simp add: world_of_simps)
    with 1 show "\<exists>w'. run_test shopping_spec t session_start = Some (Inr ((), w'))
        \<and> registry w' = registry session_start" by blast
  qed
  show "run_test shopping_spec body blank
        = Some (Inl (TypeError ''cy.loginAsStandardUser is not a function'',
            blank\<lparr>heap := [\<lparr>cls_of = LoginPage, own_fields = []\<rparr>,
              \<lparr>cls_of = InventoryPage, own_fields = []\<rparr>,
              \<lparr>cls_of = CartPage, own_fields = []\<rparr>]\<rparr>))"
    by (simp add: run_test_def shopping_spec_def new_def js_bind_def blank_def
        cy_custom_unregistered)
qed

text \<open>
  The theorem in the world of a shopping scenario: a method, a command and the two
  callbacks that return, a method, a command and a scenario that throw, and the removal
  scenario.
\<close>

theorem commands_registered_once_witness:
  "(\<exists>w'. page_call I_goToCart 1 spec_world = Inr (1, w') \<and> registry w' = registry spec_world)
   \<and> (\<exists>w'. cy_custom ''loginAsStandardUser'' [] spec_world = Some (Inr ((), w'))
         \<and> registry w' = registry spec_world)
   \<and> (\<exists>w'. clearCart_then 2 1 spec_world = Inr ((), w') \<and> registry w' = registry spec_world)
   \<and> (\<exists>w'. clearCart_each 2 ''Sauce Labs Backpack'' spec_world = Inr ((), w')
         \<and> registry w' = registry spec_world)
   \<and> (\<exists>e w'. page_call (I_shouldShowCartBadge JUndefined) 1 spec_world = Inl (e, w')
         \<and> registry w' = registry spec_world)
   \<and> (\<exists>e w'. cy_custom ''clearCart'' [] spec_world = Some (Inl (e, w'))
         \<and> registry w' = registry spec_world)
   \<and> (\<exists>e w'. run_test shopping_spec [CyCustom ''clearCart'' []] session_start
           = Some (Inl (e, w'))
         \<and> registry w' = registry session_start)
   \<and> tests shopping_spec ! 2 \<in> set (tests shopping_spec)
   \<and> (\<exists>w'. run_test shopping_spec (tests shopping_spec ! 2) session_start = Some (Inr ((), w'))
         \<and> registry w' = registry session_start)"
proof -
  note t = commands_registered_once [where w = spec_world and u = "()"]
  obtain w1 where p: "page_call I_goToCart 1 spec_world = Inr (1, w1)"
    by (simp add: run_defs)
  from t [where c = I_goToCart and this = 1 and r = 1 and w' = w1] p
  have 1: "registry w1 = registry spec_world" by simp
  have rs: "registry spec_world = registry session_start" by (simp add: spec_world_def)
  then have "cy_custom ''loginAsStandardUser'' [] spec_world = Some (loginAsStandardUser spec_world)"
    by (rule login_registered)
  then obtain w2 where c: "cy_custom ''loginAsStandardUser'' [] spec_world = Some (Inr ((), w2))"
    by (simp add: login_queue)
  from t [where name = "''loginAsStandardUser''" and args = "[]" and w' = w2] c
  have 2: "registry w2 = registry spec_world" by simp
  obtain w3 where th: "clearCart_then 2 1 spec_world = Inr ((), w3)"
    by (simp add: clearCart_then_def run_defs)
  from t [where k = 2 and n = 1 and w' = w3] th
  have 3: "registry w3 = registry spec_world" by simp
  obtain w4 where ea: "clearCart_each 2 ''Sauce Labs Backpack'' spec_world = Inr ((), w4)"
    by (simp add: clearCart_each_def run_defs)
  from t [where k = 2 and t = "''Sauce Labs Backpack''" and w' = w4] ea
  have 4: "registry w4 = registry spec_world" by simp
  obtain e5 w5 where b: "page_call (I_shouldShowCartBadge JUndefined) 1 spec_world = Inl (e5, w5)"
    by (simp add: run_defs toString_def)
  from t [where c = "I_shouldShowCartBadge JUndefined" and this = 1 and e = e5 and w' = w5] b
  have 5: "registry w5 = registry spec_world" by simp
  have "map_of (rev (registry spec_world)) ''clearCart'' = Some ClearCart"
    by (simp add: rs registry_session_start)
  then have "cy_custom ''clearCart'' [] spec_world = Some (clearCart spec_world)"
    by (rule cy_custom_clearCart)
  then obtain e6 w6 where cc: "cy_custom ''clearCart'' [] spec_world = Some (Inl (e6, w6))"
    by (simp add: clearCart_throws)
  from t [where name = "''clearCart''" and args = "[]" and e = e6 and w' = w6] cc
  have 6: "registry w6 = registry spec_world" by simp
  obtain e7 w7 where rt: "run_test shopping_spec [CyCustom ''clearCart'' []] session_start
      = Some (Inl (e7, w7))"
    by (simp add: run_test_def shopping_spec_def new_def login_registered login_queue
        cy_custom_clearCart clearCart_throws js_bind_def world_defs)
  from commands_registered_once [where w = session_start and sp = shopping_spec
      and body = "[CyCustom ''clearCart'' []]" and e = e7 and w' = w7] rt
  have 7: "registry w7 = registry session_start" by simp
  have m: "tests shopping_spec ! 2 \<in> set (tests shopping_spec)"
    by (simp add: shopping_spec_def)
  with t have 8: "\<exists>w'. run_test shopping_spec (tests shopping_spec ! 2) session_start
        = Some (Inr ((), w')) \<and> registry w' = registry session_start"
    by blast
  from p 1 c 2 th 3 ea 4 b 5 cc 6 rt 7 m 8 show ?thesis by blast
qed

text \<open>
  C10. \<open>CartPage\<close> is not bound in the commands module, so the body of \<open>clearCart\<close> throws a
  \<open>ReferenceError\<close> at \<open>new CartPage()\<close>. That statement comes before the body looks at the
  page, so \<open>cy.clearCart()\<close> raises the error whatever the cart contains, in particular
  when it contains one item or more, and the scenario that called it ends with the error.
\<close>

theorem clearCart_raises_ReferenceError:
  "CartPage \<notin> set commands_scope
   \<and> clearCart w = Inl (ReferenceError ''CartPage'',
        w\<lparr>heap := heap w @ [\<lparr>cls_of = InventoryPage, own_fields = []\<rparr>]\<rparr>)
   \<and> (map_of (rev (registry w)) ''clearCart'' = Some ClearCart
        \<longrightarrow> cy_custom ''clearCart'' args w = Some (Inl (ReferenceError ''CartPage'',
              w\<lparr>heap := heap w @ [\<lparr>cls_of = InventoryPage, own_fields = []\<rparr>]\<rparr>)))
   \<and> (map_of (rev (registry w)) ''clearCart'' = Some ClearCart
        \<longrightarrow> run_stmts env (CyCustom ''clearCart'' args # ss) w
              = Some (Inl (ReferenceError ''CartPage'',
                  w\<lparr>heap := heap w @ [\<lparr>cls_of = InventoryPage, own_fields = []\<rparr>]\<rparr>)))"
  by (simp add: cy_custom_clearCart clearCart_throws commands_scope_def)

text \<open>
  The theorem in the world of a shopping scenario, where \<open>clearCart\<close> is registered.
\<close>

theorem clearCart_raises_ReferenceError_witness:
  "map_of (rev (registry spec_world)) ''clearCart'' = Some ClearCart
   \<and> cy_custom ''clearCart'' [] spec_world = Some (Inl (ReferenceError ''CartPage'',
        spec_world\<lparr>heap := heap spec_world @ [\<lparr>cls_of = InventoryPage, own_fields = []\<rparr>]\<rparr>))
   \<and> run_stmts spec_env [CyCustom ''clearCart'' []] spec_world
        = Some (Inl (ReferenceError ''CartPage'',
             spec_world\<lparr>heap := heap spec_world @ [\<lparr>cls_of = InventoryPage, own_fields = []\<rparr>]\<rparr>))"
proof -
  have r: "map_of (rev (registry spec_world)) ''clearCart'' = Some ClearCart"
    by (simp add: world_defs)
  note t = clearCart_raises_ReferenceError [where w = spec_world and args = "[]"
      and env = spec_env and ss = "[]"]
  from t [THEN conjunct2, THEN conjunct2, THEN conjunct1, THEN mp, OF r]
    t [THEN conjunct2, THEN conjunct2, THEN conjunct2, THEN mp, OF r] r
  show ?thesis by (intro conjI)
qed

end
